theory Spec2Isabelle
  imports Main "HOL-Library.Word"
begin

section \<open>JavaScript values used by the services\<close>

text \<open>
  A JavaScript string is modelled as a \<open>string\<close> whose characters are UTF-16 code units in
  the range U+0000..U+00FF, so that \<open>length\<close> is the \<open>.length\<close> of the source. A
  \<open>number\<close> is an integer, an infinity or \<open>NaN\<close> (the only numbers the modelled code
  computes with are whole seconds and milliseconds). Exceptions are values of type
  \<open>exn\<close>. In a \<open>JObj\<close> the members are distinct and listed in the order of insertion.
\<close>

type_synonym byte = "8 word"

datatype number = NaN | Num int | Infinity | MinusInfinity

datatype exn =
    Error string
  | RangeError
  | TypeError
  | SyntaxError
  | RedisError
  | Neo4jError
  | CassandraError
  | CipherError
  | BadRequestException string

datatype json =
    JNull
  | JBool bool
  | JNum int
  | JStr string
  | JArr "json list"
  | JObj "(string \<times> json) list"

text \<open>Truthiness, as tested by \<open>if (x)\<close> and \<open>!x\<close>.\<close>

definition truthy_str :: "string \<Rightarrow> bool" where
  "truthy_str s = (s \<noteq> [])"

fun truthy_num :: "number \<Rightarrow> bool" where
  "truthy_num NaN = False"
| "truthy_num (Num n) = (n \<noteq> 0)"
| "truthy_num Infinity = True"
| "truthy_num MinusInfinity = True"

fun truthy :: "json \<Rightarrow> bool" where
  "truthy JNull = False"
| "truthy (JBool b) = b"
| "truthy (JNum n) = (n \<noteq> 0)"
| "truthy (JStr s) = truthy_str s"
| "truthy (JArr xs) = True"
| "truthy (JObj kvs) = True"

text \<open>A value that may be \<open>undefined\<close> or \<open>null\<close> is an option; \<open>None\<close> is falsy.\<close>

definition truthy_opt :: "('a \<Rightarrow> bool) \<Rightarrow> 'a option \<Rightarrow> bool" where
  "truthy_opt t v = (case v of None \<Rightarrow> False | Some x \<Rightarrow> t x)"

text \<open>Property access \<open>v.name\<close> on a truthy JSON value: only objects have own members.\<close>

fun field :: "json \<Rightarrow> string \<Rightarrow> json option" where
  "field (JObj kvs) name = map_of kvs name"
| "field v name = None"

subsection \<open>Digits\<close>

definition hex_digits :: string where
  "hex_digits = ''0123456789abcdef''"

definition hex_digit :: "nat \<Rightarrow> char" where
  "hex_digit n = hex_digits ! (n mod 16)"

definition hex_val :: "char \<Rightarrow> nat option" where
  "hex_val c =
     (let n = (of_char c :: nat) in
      if 48 \<le> n \<and> n \<le> 57 then Some (n - 48)
      else if 97 \<le> n \<and> n \<le> 102 then Some (n - 87)
      else if 65 \<le> n \<and> n \<le> 70 then Some (n - 55)
      else None)"

text \<open>The value of a digit in a radix, the longest prefix of digits of a string, and the
  number that a list of digits writes.\<close>

definition digit_val :: "nat \<Rightarrow> char \<Rightarrow> nat option" where
  "digit_val radix c =
     (case hex_val c of None \<Rightarrow> None | Some d \<Rightarrow> if d < radix then Some d else None)"

fun take_digits :: "nat \<Rightarrow> string \<Rightarrow> nat list" where
  "take_digits radix [] = []"
| "take_digits radix (c # cs) =
     (case digit_val radix c of None \<Rightarrow> [] | Some d \<Rightarrow> d # take_digits radix cs)"

definition digits_value :: "nat \<Rightarrow> nat list \<Rightarrow> nat" where
  "digits_value radix ds = foldl (\<lambda>acc d. acc * radix + d) 0 ds"

fun digits_of :: "nat \<Rightarrow> string" where
  "digits_of n =
     (if n < 10 then [hex_digit n] else digits_of (n div 10) @ [hex_digit (n mod 10)])"

definition show_int :: "int \<Rightarrow> string" where
  "show_int i = (if i < 0 then CHR ''-'' # digits_of (nat (- i)) else digits_of (nat i))"

subsection \<open>Integers as double-precision numbers\<close>

text \<open>
  A JavaScript number is a double. \<open>nearest_double v\<close> is the double nearest to the natural
  number \<open>v\<close>, ties going to the even significand, and \<open>None\<close> when that is infinite:
  every integer below \<open>2^53\<close> is a double, above it 53 significant bits are kept.
\<close>

fun bitlen :: "nat \<Rightarrow> nat" where
  "bitlen n = (if n = 0 then 0 else Suc (bitlen (n div 2)))"

definition nearest_double :: "nat \<Rightarrow> nat option" where
  "nearest_double v =
     (if v < 2 ^ 53 then Some v
      else
        (let e = bitlen v - 53;
             q = v div 2 ^ e;
             r = v mod 2 ^ e;
             up = (2 * r > 2 ^ e \<or> (2 * r = 2 ^ e \<and> odd q));
             w = (if up then q + 1 else q) * 2 ^ e
         in if w \<ge> 2 ^ 1024 then None else Some w))"

text \<open>
  \<open>Number.prototype.toString\<close> on an integral double \<open>m\<close>: the fewest significant digits
  \<open>s\<close> (\<open>k\<close> of them) such that \<open>s\<close> followed by \<open>n - k\<close> zeros reads back as \<open>m\<close>, the
  value closest to \<open>m\<close> where two qualify; written out in full up to 21 digits and in
  exponent form beyond.
\<close>

definition distance :: "nat \<Rightarrow> nat \<Rightarrow> nat" where
  "distance a b = (if a \<le> b then b - a else a - b)"

definition pick_digits :: "nat \<Rightarrow> nat \<Rightarrow> nat \<Rightarrow> (nat \<times> nat) option" where
  "pick_digits m d k =
     (let scale = 10 ^ (d - k);
          lo = m div scale;
          hi = lo + 1;
          ok_lo = (nearest_double (lo * scale) = Some m);
          ok_hi = (nearest_double (hi * scale) = Some m);
          hi' = (if hi = 10 ^ k then (10 ^ (k - 1), d + 1) else (hi, d))
      in if ok_lo \<and> ok_hi then
           (if distance (lo * scale) m < distance (hi * scale) m then Some (lo, d)
            else if distance (hi * scale) m < distance (lo * scale) m then Some hi'
            else if even lo then Some (lo, d) else Some hi')
         else if ok_lo then Some (lo, d)
         else if ok_hi then Some hi'
         else None)"

definition shortest_digits :: "nat \<Rightarrow> nat \<times> nat \<times> nat" where
  "shortest_digits m =
     (let d = length (digits_of m) in
      case List.map_filter (\<lambda>k. map_option (\<lambda>(s, n). (s, k, n)) (pick_digits m d k))
             [1..<Suc d] of
        [] \<Rightarrow> (m, d, d)
      | x # _ \<Rightarrow> x)"

definition double_text :: "nat \<Rightarrow> string" where
  "double_text m =
     (if m < 2 ^ 53 then digits_of m
      else case shortest_digits m of
        (s, k, n) \<Rightarrow>
          if n \<le> 21 then digits_of s @ replicate (n - k) CHR ''0''
          else take 1 (digits_of s) @ (if k = 1 then [] else CHR ''.'' # drop 1 (digits_of s))
               @ ''e+'' @ digits_of (n - 1))"

text \<open>The text of the number that the integer \<open>i\<close> is as a double; \<open>JSON.stringify\<close>
  writes an infinity as \<open>null\<close>.\<close>

definition number_text :: "int \<Rightarrow> string" where
  "number_text i =
     (case nearest_double (nat \<bar>i\<bar>) of
        None \<Rightarrow> ''null''
      | Some m \<Rightarrow> (if i < 0 then ''-'' else []) @ double_text m)"

subsection \<open>\<open>JSON.stringify\<close>\<close>

fun escape_char :: "char \<Rightarrow> string" where
  "escape_char c =
     (if c = CHR ''\"'' then [CHR 0x5C, CHR ''\"'']
      else if c = CHR 0x5C then [CHR 0x5C, CHR 0x5C]
      else if c = CHR 0x08 then [CHR 0x5C, CHR ''b'']
      else if c = CHR 0x0C then [CHR 0x5C, CHR ''f'']
      else if c = CHR 0x0A then [CHR 0x5C, CHR ''n'']
      else if c = CHR 0x0D then [CHR 0x5C, CHR ''r'']
      else if c = CHR 0x09 then [CHR 0x5C, CHR ''t'']
      else if (of_char c :: nat) < 32
        then [CHR 0x5C, CHR ''u'', CHR ''0'', CHR ''0'',
              hex_digit (of_char c div 16), hex_digit (of_char c)]
      else [c])"

definition quote :: "string \<Rightarrow> string" where
  "quote s = [CHR ''\"''] @ concat (map escape_char s) @ [CHR ''\"'']"

fun join :: "string \<Rightarrow> string list \<Rightarrow> string" where
  "join sep [] = []"
| "join sep [x] = x"
| "join sep (x # y # ys) = x @ sep @ join sep (y # ys)"

text \<open>
  The members of an object are written in the order of property enumeration: those whose
  key is an array index (a canonical decimal numeral below \<open>2^32 - 1\<close>) first, by
  ascending index, then the others in the order of insertion.
\<close>

definition array_index :: "string \<Rightarrow> nat option" where
  "array_index key =
     (let v = digits_value 10 (take_digits 10 key) in
      if key \<noteq> [] \<and> digits_of v = key \<and> v < 4294967295 then Some v else None)"

definition index_or_zero :: "string \<Rightarrow> nat" where
  "index_or_zero key = (case array_index key of None \<Rightarrow> 0 | Some v \<Rightarrow> v)"

definition enumeration_order :: "(string \<times> 'a) list \<Rightarrow> (string \<times> 'a) list" where
  "enumeration_order members =
     sort_key (\<lambda>m. index_or_zero (fst m)) (filter (\<lambda>m. array_index (fst m) \<noteq> None) members)
     @ filter (\<lambda>m. array_index (fst m) = None) members"

fun JSON_stringify :: "json \<Rightarrow> string" where
  "JSON_stringify JNull = ''null''"
| "JSON_stringify (JBool b) = (if b then ''true'' else ''false'')"
| "JSON_stringify (JNum n) = number_text n"
| "JSON_stringify (JStr s) = quote s"
| "JSON_stringify (JArr xs) = ''['' @ join '','' (map JSON_stringify xs) @ '']''"
| "JSON_stringify (JObj kvs) =
     ''{'' @ join '',''
              (map (\<lambda>m. quote (fst m) @ '':'' @ snd m)
                 (enumeration_order (map (\<lambda>kv. (fst kv, JSON_stringify (snd kv))) kvs)))
       @ ''}''"

section \<open>The Redis client and \<open>RedisService\<close>\<close>

text \<open>
  The Redis server behind the client is a finite map from keys to string values, each with
  an optional absolute expiry instant (epoch milliseconds). The record also carries the
  clock, read by the server for expiry and by the service through \<open>Date.now()\<close>, and
  whether the connection is usable: every command of a disconnected client rejects.
  No time passes inside one call of the service. Logging is not modelled.
\<close>

record entry =
  val :: string
  expireAt :: "int option"

record redis =
  kv :: "string \<rightharpoonup> entry"
  now :: int
  connected :: bool

definition live :: "redis \<Rightarrow> entry \<Rightarrow> bool" where
  "live r e = (case expireAt e of None \<Rightarrow> True | Some t \<Rightarrow> now r < t)"

text \<open>\<open>client.get\<close>: the value of a key that exists and has not expired, else \<open>null\<close>.\<close>

definition client_get :: "redis \<Rightarrow> string \<Rightarrow> exn + string option" where
  "client_get r k =
     (if \<not> connected r then Inl RedisError
      else Inr (case kv r k of
                  None \<Rightarrow> None
                | Some e \<Rightarrow> if live r e then Some (val e) else None))"

text \<open>\<open>client.set\<close> stores without expiry; \<open>client.setEx\<close> requires a positive number
  of seconds. A void command returns the exception it threw, if any, and the new state.\<close>

definition client_set :: "redis \<Rightarrow> string \<Rightarrow> string \<Rightarrow> exn option \<times> redis" where
  "client_set r k v =
     (if \<not> connected r then (Some RedisError, r)
      else (None, r\<lparr>kv := (kv r)(k \<mapsto> \<lparr>val = v, expireAt = None\<rparr>)\<rparr>))"

definition client_setEx :: "redis \<Rightarrow> string \<Rightarrow> number \<Rightarrow> string \<Rightarrow> exn option \<times> redis" where
  "client_setEx r k ttl v =
     (if \<not> connected r then (Some RedisError, r)
      else case ttl of
             Num n \<Rightarrow>
               if n \<le> 0 then (Some RedisError, r)
               else (None, r\<lparr>kv := (kv r)(k \<mapsto> \<lparr>val = v, expireAt = Some (now r + n * 1000)\<rparr>)\<rparr>)
           | _ \<Rightarrow> (Some RedisError, r))"

definition client_del :: "redis \<Rightarrow> string \<Rightarrow> exn option \<times> redis" where
  "client_del r k =
     (if \<not> connected r then (Some RedisError, r)
      else (None, r\<lparr>kv := (kv r)(k := None)\<rparr>))"

text \<open>\<open>RedisService.get\<close>, \<open>set\<close> (with its optional \<open>ttl\<close>) and \<open>delete\<close>.\<close>

definition get :: "redis \<Rightarrow> string \<Rightarrow> exn + string option" where
  "get r key = client_get r key"

definition set_key :: "redis \<Rightarrow> string \<Rightarrow> string \<Rightarrow> number option \<Rightarrow> exn option \<times> redis" where
  "set_key r key v ttl =
     (case ttl of
        Some t \<Rightarrow> if truthy_num t then client_setEx r key t v else client_set r key v
      | None \<Rightarrow> client_set r key v)"

definition delete :: "redis \<Rightarrow> string \<Rightarrow> exn option \<times> redis" where
  "delete r key = client_del r key"

subsection \<open>Sessions\<close>

definition sessionKey :: "string \<Rightarrow> string" where
  "sessionKey sessionToken = ''session:'' @ sessionToken"

definition metadataKey :: "string \<Rightarrow> string" where
  "metadataKey sessionToken = ''session:metadata:'' @ sessionToken"

text \<open>
  \<open>new Date(ms).toISOString()\<close> throws a \<open>RangeError\<close> outside the range of valid time
  values; the text it produces inside the range is given by the parameter \<open>fmt\<close>. The
  current instant \<open>new Date()\<close> is always inside the range.
\<close>

definition toISOString :: "(int \<Rightarrow> string) \<Rightarrow> number \<Rightarrow> exn + string" where
  "toISOString fmt t =
     (case t of
        Num ms \<Rightarrow> if \<bar>ms\<bar> \<le> 8640000000000000 then Inr (fmt ms) else Inl RangeError
      | _ \<Rightarrow> Inl RangeError)"

fun num_times :: "number \<Rightarrow> int \<Rightarrow> number" where
  "num_times NaN k = NaN"
| "num_times (Num n) k = Num (n * k)"
| "num_times Infinity k = (if 0 < k then Infinity else if k < 0 then MinusInfinity else NaN)"
| "num_times MinusInfinity k = (if 0 < k then MinusInfinity else if k < 0 then Infinity else NaN)"

fun num_plus :: "int \<Rightarrow> number \<Rightarrow> number" where
  "num_plus t NaN = NaN"
| "num_plus t (Num n) = Num (t + n)"
| "num_plus t Infinity = Infinity"
| "num_plus t MinusInfinity = MinusInfinity"

definition metadata_of :: "string \<Rightarrow> string \<Rightarrow> string \<Rightarrow> json" where
  "metadata_of createdAt expiresAt sessionToken =
     JObj [(''createdAt'', JStr createdAt), (''expiresAt'', JStr expiresAt),
           (''token'', JStr sessionToken)]"

definition storeSession ::
  "(int \<Rightarrow> string) \<Rightarrow> redis \<Rightarrow> string \<Rightarrow> (string \<times> json) list \<Rightarrow> number \<Rightarrow> exn option \<times> redis"
where
  "storeSession fmt r sessionToken data ttl =
     (case set_key r (sessionKey sessionToken) (JSON_stringify (JObj data)) (Some ttl) of
        (Some e, r1) \<Rightarrow> (Some e, r1)
      | (None, r1) \<Rightarrow>
          (case toISOString fmt (num_plus (now r1) (num_times ttl 1000)) of
             Inl e \<Rightarrow> (Some e, r1)
           | Inr expiresAt \<Rightarrow>
               set_key r1 (metadataKey sessionToken)
                 (JSON_stringify (metadata_of (fmt (now r1)) expiresAt sessionToken))
                 (Some (num_times ttl 2))))"

record session_status =
  valid :: bool
  expired :: bool

definition checkSessionStatus :: "redis \<Rightarrow> string \<Rightarrow> exn + session_status" where
  "checkSessionStatus r sessionToken =
     (case get r (sessionKey sessionToken) of
        Inl e \<Rightarrow> Inl e
      | Inr sessionData \<Rightarrow>
          (case get r (metadataKey sessionToken) of
             Inl e \<Rightarrow> Inl e
           | Inr metadata \<Rightarrow>
               if truthy_opt truthy_str sessionData then Inr \<lparr>valid = True, expired = False\<rparr>
               else if truthy_opt truthy_str metadata then Inr \<lparr>valid = False, expired = True\<rparr>
               else Inr \<lparr>valid = False, expired = False\<rparr>))"

text \<open>\<open>deleteSession\<close> issues both deletions (\<open>Promise.all\<close>) and rejects if one rejected.\<close>

definition deleteSession :: "redis \<Rightarrow> string \<Rightarrow> exn option \<times> redis" where
  "deleteSession r sessionToken =
     (case delete r (sessionKey sessionToken) of
        (e1, r1) \<Rightarrow>
          (case delete r1 (metadataKey sessionToken) of
             (e2, r2) \<Rightarrow> ((case e1 of Some e \<Rightarrow> Some e | None \<Rightarrow> e2), r2)))"

section \<open>Buffers, hex and text encodings\<close>

text \<open>\<open>buf.toString('hex')\<close>: two lowercase digits per byte.\<close>

definition toString_hex :: "byte list \<Rightarrow> string" where
  "toString_hex bs = concat (map (\<lambda>b. [hex_digit (unat b div 16), hex_digit (unat b mod 16)]) bs)"

text \<open>\<open>Buffer.from(s, 'hex')\<close>: decodes pairs of digits and stops at the first pair that
  is not hexadecimal; a trailing single character is dropped.\<close>

fun Buffer_from_hex :: "string \<Rightarrow> byte list" where
  "Buffer_from_hex (a # b # rest) =
     (case (hex_val a, hex_val b) of
        (Some h, Some l) \<Rightarrow> of_nat (16 * h + l) # Buffer_from_hex rest
      | _ \<Rightarrow> [])"
| "Buffer_from_hex s = []"

text \<open>\<open>Buffer.from(s)\<close>: the UTF-8 bytes; a code unit below U+0080 is one byte, the others
  of the modelled range are two.\<close>

definition utf8_char :: "char \<Rightarrow> byte list" where
  "utf8_char c =
     (let n = (of_char c :: nat) in
      if n < 128 then [of_nat n] else [of_nat (192 + n div 64), of_nat (128 + n mod 64)])"

definition Buffer_from :: "string \<Rightarrow> byte list" where
  "Buffer_from s = concat (map utf8_char s)"

definition padEnd :: "nat \<Rightarrow> char \<Rightarrow> string \<Rightarrow> string" where
  "padEnd n c s = s @ replicate (n - length s) c"

definition substring :: "nat \<Rightarrow> nat \<Rightarrow> string \<Rightarrow> string" where
  "substring i j s = take (j - i) (drop i s)"

text \<open>\<open>a || b\<close> on a string that may be undefined.\<close>

definition or_else :: "string option \<Rightarrow> string \<Rightarrow> string" where
  "or_else a b = (case a of None \<Rightarrow> b | Some s \<Rightarrow> if truthy_str s then s else b)"

subsection \<open>\<open>parseInt\<close> without a radix\<close>

text \<open>The result is the double nearest to the integer that the digits write.\<close>

definition is_space :: "char \<Rightarrow> bool" where
  "is_space c = ((of_char c :: nat) \<in> {9, 10, 11, 12, 13, 32, 160})"

definition parseInt :: "string \<Rightarrow> number" where
  "parseInt s =
     (let s1 = dropWhile is_space s;
          neg = (take 1 s1 = ''-'');
          s2 = (if take 1 s1 = ''-'' \<or> take 1 s1 = ''+'' then drop 1 s1 else s1);
          hex = (take 2 s2 = ''0x'' \<or> take 2 s2 = ''0X'');
          radix = (if hex then 16 else 10);
          ds = take_digits radix (if hex then drop 2 s2 else s2)
      in if ds = [] then NaN
         else case nearest_double (digits_value radix ds) of
                None \<Rightarrow> if neg then MinusInfinity else Infinity
              | Some m \<Rightarrow> Num (if neg then - int m else int m))"

section \<open>Session tokens\<close>

text \<open>\<open>generateSessionToken\<close>; \<open>rnd\<close> is what \<open>crypto.randomBytes(32)\<close> returned.\<close>

definition generateSessionToken :: "byte list \<Rightarrow> string" where
  "generateSessionToken rnd = toString_hex rnd"


section \<open>\<open>EncryptionService\<close> and the client-side helper\<close>

text \<open>
  The cipher of Node's \<open>crypto\<close> module, its UTF-8 decoder and \<open>JSON.parse\<close> are
  parameters. \<open>cipher_encrypt alg key iv plaintext\<close> is the ciphertext and the
  authentication tag, or \<open>None\<close> when creating or running the cipher throws (unknown
  algorithm, wrong key or IV length, no authentication tag in this mode);
  \<open>cipher_decrypt alg key iv tag ciphertext\<close> is the plaintext, or \<open>None\<close> when the
  decipher throws (as before, or the tag does not verify). \<open>untyped_decrypt\<close> stands for
  what \<open>decrypt\<close> does at run time with a value whose three members are not all strings.
\<close>

record node =
  cipher_encrypt :: "string \<Rightarrow> byte list \<Rightarrow> byte list \<Rightarrow> byte list \<Rightarrow> (byte list \<times> byte list) option"
  cipher_decrypt :: "string \<Rightarrow> byte list \<Rightarrow> byte list \<Rightarrow> byte list \<Rightarrow> byte list \<Rightarrow> byte list option"
  toString_utf8 :: "byte list \<Rightarrow> string"
  JSON_parse :: "string \<Rightarrow> json option"
  untyped_decrypt :: "string \<Rightarrow> byte list \<Rightarrow> json \<Rightarrow> exn + string"

record EncryptedPayload =
  ciphertext :: string
  iv :: string
  authTag :: string

record EncryptionService =
  encryptionKey :: "byte list"
  algorithm :: string

definition getConfigWithFallback :: "'a option \<Rightarrow> 'a \<Rightarrow> 'a" where
  "getConfigWithFallback v fallback = (case v of Some x \<Rightarrow> x | None \<Rightarrow> fallback)"

definition derive_key :: "string \<Rightarrow> byte list" where
  "derive_key keyStr =
     (if length (Buffer_from_hex keyStr) = 32 then Buffer_from_hex keyStr
      else Buffer_from (substring 0 32 (padEnd 32 CHR ''0'' keyStr)))"

text \<open>The \<open>try\<close> block of \<open>initializeKeys\<close>; \<open>cfgKey\<close> and \<open>cfgAlg\<close> are the values of the
  dynamic configuration, \<open>envKey\<close> and \<open>envAlg\<close> the environment variables.\<close>

definition initializeKeys_try ::
  "string option \<Rightarrow> string option \<Rightarrow> string option \<Rightarrow> string option \<Rightarrow> exn + EncryptionService"
where
  "initializeKeys_try cfgKey cfgAlg envKey envAlg =
     (let keyStr = getConfigWithFallback cfgKey (or_else envKey []) in
      if length keyStr < 32
        then Inl (Error ''ENCRYPTION_KEY must be at least 32 characters long'')
      else Inr \<lparr>encryptionKey = derive_key keyStr,
                algorithm = getConfigWithFallback cfgAlg (or_else envAlg ''aes-256-gcm'')\<rparr>)"

definition initializeKeys ::
  "string option \<Rightarrow> string option \<Rightarrow> string option \<Rightarrow> string option \<Rightarrow> EncryptionService"
where
  "initializeKeys cfgKey cfgAlg envKey envAlg =
     (case initializeKeys_try cfgKey cfgAlg envKey envAlg of
        Inr svc \<Rightarrow> svc
      | Inl e \<Rightarrow>
          (let k = or_else envKey [] in
           \<lparr>encryptionKey =
              (if length k \<ge> 32 then Buffer_from_hex k
               else Buffer_from (substring 0 32 (padEnd 32 CHR ''0'' k))),
            algorithm = or_else envAlg ''aes-256-gcm''\<rparr>))"

text \<open>The constructor of \<open>ApiEncryptionHelper\<close>.\<close>

definition ApiEncryptionHelper :: "string \<Rightarrow> string \<Rightarrow> exn + EncryptionService" where
  "ApiEncryptionHelper encryptionKeyHex alg =
     (if length encryptionKeyHex < 32
        then Inl (Error ''Encryption key must be at least 32 characters long'')
      else Inr \<lparr>encryptionKey = derive_key encryptionKeyHex, algorithm = alg\<rparr>)"

text \<open>\<open>encrypt\<close>; \<open>nonce\<close> is what \<open>crypto.randomBytes(16)\<close> returned.\<close>

definition encrypt :: "node \<Rightarrow> EncryptionService \<Rightarrow> byte list \<Rightarrow> string \<Rightarrow> exn + EncryptedPayload" where
  "encrypt lib svc nonce plain =
     (case cipher_encrypt lib (algorithm svc) (encryptionKey svc) nonce (Buffer_from plain) of
        None \<Rightarrow> Inl CipherError
      | Some (encrypted, tag) \<Rightarrow>
          Inr \<lparr>ciphertext = toString_hex encrypted, iv = toString_hex nonce,
               authTag = toString_hex tag\<rparr>)"

text \<open>
  \<open>decrypt\<close>. The IV and the tag are decoded by \<open>Buffer.from(.., 'hex')\<close>; the ciphertext
  is handed to \<open>decipher.update(.., 'hex', 'utf-8')\<close>, which throws on an odd number of hex
  digits. \<open>decrypt\<close> logs and rethrows whatever is thrown, and no caller tells the
  exceptions apart.
\<close>

definition decrypt :: "node \<Rightarrow> EncryptionService \<Rightarrow> EncryptedPayload \<Rightarrow> exn + string" where
  "decrypt lib svc payload =
     (if odd (length (ciphertext payload)) then Inl TypeError
      else case cipher_decrypt lib (algorithm svc) (encryptionKey svc)
                  (Buffer_from_hex (iv payload)) (Buffer_from_hex (authTag payload))
                  (Buffer_from_hex (ciphertext payload)) of
             None \<Rightarrow> Inl CipherError
           | Some decrypted \<Rightarrow> Inr (toString_utf8 lib decrypted))"

text \<open>\<open>decrypt\<close> applied to a run-time value, as the interceptor applies it to a body.\<close>

definition decrypt_value :: "node \<Rightarrow> EncryptionService \<Rightarrow> json \<Rightarrow> exn + string" where
  "decrypt_value lib svc v =
     (case (field v ''ciphertext'', field v ''iv'', field v ''authTag'') of
        (Some (JStr c), Some (JStr i), Some (JStr t)) \<Rightarrow>
          decrypt lib svc \<lparr>ciphertext = c, iv = i, authTag = t\<rparr>
      | _ \<Rightarrow> untyped_decrypt lib (algorithm svc) (encryptionKey svc) v)"

definition decryptFromRequest :: "node \<Rightarrow> EncryptionService \<Rightarrow> json \<Rightarrow> exn + string" where
  "decryptFromRequest lib svc encryptedData =
     (case encryptedData of
        JStr s \<Rightarrow>
          (case JSON_parse lib s of
             None \<Rightarrow> Inl SyntaxError
           | Some parsed \<Rightarrow> decrypt_value lib svc parsed)
      | _ \<Rightarrow> decrypt_value lib svc encryptedData)"

section \<open>\<open>DecryptPayloadInterceptor\<close>\<close>

definition MISSING_ENCRYPTED_PAYLOAD :: string where
  "MISSING_ENCRYPTED_PAYLOAD = ''Missing encrypted payload''"

definition INVALID_ENCRYPTED_FORMAT :: string where
  "INVALID_ENCRYPTED_FORMAT = ''Invalid encrypted payload format''"

text \<open>A request: its method and its body (\<open>None\<close> when \<open>request.body\<close> is undefined).\<close>

record request =
  "method" :: string
  body :: "json option"

text \<open>The inner \<open>try\<close> of \<open>intercept\<close>: \<open>Inr\<close> is the request handed to \<open>next.handle()\<close>.\<close>

definition intercept_try :: "node \<Rightarrow> EncryptionService \<Rightarrow> request \<Rightarrow> exn + request" where
  "intercept_try lib svc req =
     (case body req of
        None \<Rightarrow> Inl (BadRequestException MISSING_ENCRYPTED_PAYLOAD)
      | Some encryptedData \<Rightarrow>
          if \<not> truthy encryptedData then Inl (BadRequestException MISSING_ENCRYPTED_PAYLOAD)
          else if \<not> truthy_opt truthy (field encryptedData ''ciphertext'')
                \<or> \<not> truthy_opt truthy (field encryptedData ''iv'')
                \<or> \<not> truthy_opt truthy (field encryptedData ''authTag'')
            then Inr req
          else
            (case decryptFromRequest lib svc encryptedData of
               Inl e \<Rightarrow> Inl (BadRequestException INVALID_ENCRYPTED_FORMAT)
             | Inr decryptedString \<Rightarrow>
                 (case JSON_parse lib decryptedString of
                    None \<Rightarrow> Inl (BadRequestException INVALID_ENCRYPTED_FORMAT)
                  | Some decryptedData \<Rightarrow> Inr (req\<lparr>body := Some decryptedData\<rparr>))))"

definition intercept :: "node \<Rightarrow> EncryptionService \<Rightarrow> request \<Rightarrow> exn + request" where
  "intercept lib svc req =
     (if method req \<in> set [''POST'', ''PUT'', ''PATCH'']
        then (case intercept_try lib svc req of
                Inl (BadRequestException m) \<Rightarrow> Inl (BadRequestException m)
              | Inl e \<Rightarrow> Inl (BadRequestException INVALID_ENCRYPTED_FORMAT)
              | Inr req' \<Rightarrow> Inr req')
      else Inr req)"

section \<open>\<open>CassandraService\<close> and \<open>ApiKeyService\<close>\<close>

text \<open>
  The table \<open>api_keys\<close> is a list of rows. \<open>client.execute\<close> throws for the kinds of
  statement in \<open>failing\<close>; both service methods log the error and rethrow it.
\<close>

record api_key_row =
  key_id :: string
  api_key :: string
  client_name :: string
  is_active :: bool
  created_at :: int
  last_used :: "int option"
  permissions :: "string list"

datatype statement = Select | Insert | Update

record cassandra =
  api_keys :: "api_key_row list"
  failing :: "statement \<Rightarrow> bool"

record key_data =
  keyId :: string
  clientName :: string
  isActive :: bool

definition getApiKey :: "cassandra \<Rightarrow> string \<Rightarrow> exn + key_data option" where
  "getApiKey db apiKey =
     (if failing db Select then Inl CassandraError
      else case filter (\<lambda>row. api_key row = apiKey) (api_keys db) of
             [] \<Rightarrow> Inr None
           | row # _ \<Rightarrow>
               Inr (Some \<lparr>keyId = key_id row, clientName = client_name row,
                          isActive = is_active row\<rparr>))"

text \<open>\<open>updateLastUsed\<close>; \<open>t\<close> is the \<open>new Date()\<close> of the call.\<close>

definition updateLastUsed :: "cassandra \<Rightarrow> int \<Rightarrow> string \<Rightarrow> exn option \<times> cassandra" where
  "updateLastUsed db t apiKey =
     (if failing db Update then (Some CassandraError, db)
      else (None, db\<lparr>api_keys :=
              map (\<lambda>row. if api_key row = apiKey then row\<lparr>last_used := Some t\<rparr> else row)
                (api_keys db)\<rparr>))"

definition validateApiKey :: "cassandra \<Rightarrow> int \<Rightarrow> string \<Rightarrow> bool \<times> cassandra" where
  "validateApiKey db t apiKey =
     (case getApiKey db apiKey of
        Inl e \<Rightarrow> (False, db)
      | Inr None \<Rightarrow> (False, db)
      | Inr (Some keyData) \<Rightarrow>
          if \<not> isActive keyData then (False, db)
          else (case updateLastUsed db t apiKey of
                  (Some e, db') \<Rightarrow> (False, db')
                | (None, db') \<Rightarrow> (True, db')))"

section \<open>\<open>AuthService\<close>\<close>

text \<open>
  Modelled from the spec: the enum \<open>ErrorCode\<close> of \<open>common/errors/error-codes.ts\<close>, a
  file that is not among the sources, with the members that the services use and the API
  documentation lists. The table \<open>ERROR_CODE_MESSAGES\<close> of the same file is a parameter
  of \<open>AuthService\<close> below.
\<close>

datatype ErrorCode =
    EMAIL_NOT_FOUND
  | MISSING_INFORMATION
  | INCORRECT_PASSWORD
  | INVALID_CREDENTIALS
  | USER_NOT_FOUND
  | EMAIL_ALREADY_EXISTS
  | DATABASE_ERROR
  | SESSION_CREATION_ERROR
  | SESSION_INVALID
  | SESSION_EXPIRED

record LoginRequestDto =
  email :: "string option"
  password :: "string option"

record SignupRequestDto =
  signup_email :: "string option"
  encryptedPassword :: "string option"

record LoginResponseDto =
  success :: bool
  sessionToken :: "string option"
  message :: string
  code :: "ErrorCode option"
  timestamp :: int

record verification = session_status +
  vcode :: "ErrorCode option"

definition LOGIN_SUCCESSFUL :: string where
  "LOGIN_SUCCESSFUL = ''Login successful''"

definition SIGNUP_SUCCESSFUL :: string where
  "SIGNUP_SUCCESSFUL = ''Signup successful''"

text \<open>
  The graph database holds the \<open>User\<close> nodes; a query throws when the database is down.
  \<open>hashedPassword\<close> is \<open>None\<close> for a node without that property.
\<close>

record user_node =
  node_email :: string
  hashedPassword :: "string option"

record neo4j =
  users :: "user_node list"
  neo4j_up :: bool

definition match_user :: "neo4j \<Rightarrow> string \<Rightarrow> exn + user_node list" where
  "match_user g e =
     (if \<not> neo4j_up g then Inl Neo4jError
      else Inr (filter (\<lambda>u. node_email u = e) (users g)))"

definition create_user :: "neo4j \<Rightarrow> string \<Rightarrow> string \<Rightarrow> exn option \<times> neo4j" where
  "create_user g e h =
     (if \<not> neo4j_up g then (Some Neo4jError, g)
      else (None, g\<lparr>users := users g @ [\<lparr>node_email = e, hashedPassword = Some h\<rparr>]\<rparr>))"

text \<open>
  What \<open>AuthService\<close> is constructed with: the table \<open>ERROR_CODE_MESSAGES\<close>, the two
  operations of \<open>bcrypt\<close>, the value of \<open>configService.get('app.jwtExpiration')\<close> and the
  formatting of dates. \<open>bcrypt.compare\<close> rejects when the hash is missing.
\<close>

record auth_env =
  ERROR_CODE_MESSAGES :: "ErrorCode \<Rightarrow> string"
  bcrypt_compare :: "string \<Rightarrow> string \<Rightarrow> bool"
  bcrypt_hash :: "string \<Rightarrow> string"
  jwtExpiration :: "string option"
  date_fmt :: "int \<Rightarrow> string"

record world =
  graph :: neo4j
  store :: redis

definition compare :: "auth_env \<Rightarrow> string \<Rightarrow> string option \<Rightarrow> exn + bool" where
  "compare E pw h = (case h of None \<Rightarrow> Inl (Error ''data and hash arguments required'')
                     | Some hash \<Rightarrow> Inr (bcrypt_compare E pw hash))"

definition createErrorResponse :: "auth_env \<Rightarrow> int \<Rightarrow> ErrorCode \<Rightarrow> bool \<Rightarrow> LoginResponseDto" where
  "createErrorResponse E t c ok =
     \<lparr>success = ok, sessionToken = None, message = ERROR_CODE_MESSAGES E c, code = None,
      timestamp = t\<rparr>"

definition sessionTtl :: "auth_env \<Rightarrow> number" where
  "sessionTtl E = parseInt (or_else (jwtExpiration E) ''86400'')"

text \<open>
  \<open>login\<close> and \<open>signup\<close> return the response and the world they leave; \<open>rnd\<close> is what
  \<open>crypto.randomBytes(32)\<close> returned inside \<open>generateSessionToken\<close>. Every exception is
  caught and answered with \<open>DATABASE_ERROR\<close>.
\<close>

definition login :: "auth_env \<Rightarrow> world \<Rightarrow> LoginRequestDto \<Rightarrow> byte list \<Rightarrow> LoginResponseDto \<times> world" where
  "login E w credentials rnd =
     (let t = now (store w) in
      case (email credentials, password credentials) of
        (Some e, Some pw) \<Rightarrow>
          if \<not> truthy_str e \<or> \<not> truthy_str pw
            then (createErrorResponse E t MISSING_INFORMATION False, w)
          else
            (case match_user (graph w) e of
               Inl err \<Rightarrow> (createErrorResponse E t DATABASE_ERROR False, w)
             | Inr [] \<Rightarrow> (createErrorResponse E t EMAIL_NOT_FOUND False, w)
             | Inr (user # _) \<Rightarrow>
                 (case compare E pw (hashedPassword user) of
                    Inl err \<Rightarrow> (createErrorResponse E t DATABASE_ERROR False, w)
                  | Inr isPasswordValid \<Rightarrow>
                      if \<not> isPasswordValid
                        then (createErrorResponse E t INCORRECT_PASSWORD False, w)
                      else
                        (let token = generateSessionToken rnd in
                         case storeSession (date_fmt E) (store w) token
                                [(''email'', JStr e), (''timestamp'', JStr (date_fmt E t))]
                                (sessionTtl E) of
                           (Some err, r') \<Rightarrow>
                             (createErrorResponse E t DATABASE_ERROR False, w\<lparr>store := r'\<rparr>)
                         | (None, r') \<Rightarrow>
                             (\<lparr>success = True, sessionToken = Some token,
                               message = LOGIN_SUCCESSFUL, code = None, timestamp = t\<rparr>,
                              w\<lparr>store := r'\<rparr>))))
      | _ \<Rightarrow> (createErrorResponse E t MISSING_INFORMATION False, w))"

definition signup :: "auth_env \<Rightarrow> world \<Rightarrow> SignupRequestDto \<Rightarrow> byte list \<Rightarrow> LoginResponseDto \<times> world" where
  "signup E w data rnd =
     (let t = now (store w) in
      case (signup_email data, encryptedPassword data) of
        (Some e, Some pw) \<Rightarrow>
          if \<not> truthy_str e \<or> \<not> truthy_str pw
            then (createErrorResponse E t MISSING_INFORMATION False, w)
          else
            (case match_user (graph w) e of
               Inl err \<Rightarrow> (createErrorResponse E t DATABASE_ERROR False, w)
             | Inr (user # _) \<Rightarrow> (createErrorResponse E t EMAIL_ALREADY_EXISTS False, w)
             | Inr [] \<Rightarrow>
                 (case create_user (graph w) e (bcrypt_hash E pw) of
                    (Some err, g') \<Rightarrow>
                      (createErrorResponse E t DATABASE_ERROR False, w\<lparr>graph := g'\<rparr>)
                  | (None, g') \<Rightarrow>
                      (let token = generateSessionToken rnd in
                       case storeSession (date_fmt E) (store w) token
                              [(''email'', JStr e), (''timestamp'', JStr (date_fmt E t))]
                              (sessionTtl E) of
                         (Some err, r') \<Rightarrow>
                           (createErrorResponse E t DATABASE_ERROR False,
                            w\<lparr>graph := g', store := r'\<rparr>)
                       | (None, r') \<Rightarrow>
                           (\<lparr>success = True, sessionToken = Some token,
                             message = SIGNUP_SUCCESSFUL, code = None, timestamp = t\<rparr>,
                            w\<lparr>graph := g', store := r'\<rparr>))))
      | _ \<Rightarrow> (createErrorResponse E t MISSING_INFORMATION False, w))"

definition verifySession :: "redis \<Rightarrow> string \<Rightarrow> verification" where
  "verifySession r token =
     (case checkSessionStatus r token of
        Inl e \<Rightarrow> \<lparr>valid = False, expired = False, vcode = Some DATABASE_ERROR\<rparr>
      | Inr status \<Rightarrow>
          if valid status then \<lparr>valid = True, expired = False, vcode = None\<rparr>
          else if expired status
            then \<lparr>valid = False, expired = True, vcode = Some SESSION_EXPIRED\<rparr>
          else \<lparr>valid = False, expired = False, vcode = Some SESSION_INVALID\<rparr>)"

section \<open>Predicates used in the statements\<close>

text \<open>A record is present when its key exists in the store and has not expired.\<close>

definition present :: "redis \<Rightarrow> string \<Rightarrow> bool" where
  "present r k = (case kv r k of None \<Rightarrow> False | Some e \<Rightarrow> live r e)"

text \<open>No key holds the empty string. Every value the services write is the
  \<open>JSON.stringify\<close> of an object, so the operations above keep this true.\<close>

definition nonempty_values :: "redis \<Rightarrow> bool" where
  "nonempty_values r = (\<forall>k e. kv r k = Some e \<longrightarrow> val e \<noteq> [])"

definition VALID :: session_status where
  "VALID = \<lparr>valid = True, expired = False\<rparr>"

definition EXPIRED :: session_status where
  "EXPIRED = \<lparr>valid = False, expired = True\<rparr>"

definition INVALID :: session_status where
  "INVALID = \<lparr>valid = False, expired = False\<rparr>"

section \<open>Example values\<close>

text \<open>A connected, empty store at instant 0, and a stand-in for the date format.\<close>

definition epoch_store :: redis where
  "epoch_store = \<lparr>kv = Map.empty, now = 0, connected = True\<rparr>"

definition fmt_ms :: "int \<Rightarrow> string" where
  "fmt_ms ms = show_int ms"

definition offline_store :: redis where
  "offline_store = \<lparr>kv = Map.empty, now = 0, connected = False\<rparr>"

text \<open>The same store \<open>ms\<close> milliseconds later.\<close>

definition advance :: "redis \<Rightarrow> int \<Rightarrow> redis" where
  "advance r ms = r\<lparr>now := now r + ms\<rparr>"

definition minute_session :: redis where
  "minute_session = snd (storeSession fmt_ms epoch_store ''ab'' [] (Num 60))"

text \<open>Two libraries for examples: one whose cipher always throws, and one whose cipher
  leaves the text as it is and uses the key as tag, decoding ASCII.\<close>

definition failing_lib :: node where
  "failing_lib =
     \<lparr>cipher_encrypt = (\<lambda>alg key nonce plain. None),
      cipher_decrypt = (\<lambda>alg key nonce tag encrypted. None),
      toString_utf8 = (\<lambda>bs. []),
      JSON_parse = (\<lambda>s. None),
      untyped_decrypt = (\<lambda>alg key v. Inl TypeError)\<rparr>"

definition ascii_of_bytes :: "byte list \<Rightarrow> string" where
  "ascii_of_bytes bs = map (\<lambda>b. char_of (unat b)) bs"

definition toy_lib :: node where
  "toy_lib =
     \<lparr>cipher_encrypt = (\<lambda>alg key nonce plain. Some (plain, key)),
      cipher_decrypt = (\<lambda>alg key nonce tag encrypted. if tag = key then Some encrypted else None),
      toString_utf8 = ascii_of_bytes,
      JSON_parse = (\<lambda>s. if s = ''{}'' then Some (JObj []) else None),
      untyped_decrypt = (\<lambda>alg key v. Inl TypeError)\<rparr>"

definition toy_service :: EncryptionService where
  "toy_service = \<lparr>encryptionKey = [1, 2], algorithm = ''toy''\<rparr>"

definition envelope :: "string \<Rightarrow> string \<Rightarrow> string \<Rightarrow> json" where
  "envelope c i t = JObj [(''ciphertext'', JStr c), (''iv'', JStr i), (''authTag'', JStr t)]"

definition post :: "json option \<Rightarrow> request" where
  "post b = \<lparr>method = ''POST'', body = b\<rparr>"

text \<open>A member counts for the interceptor when it is there and truthy.\<close>

definition carries :: "json \<Rightarrow> string \<Rightarrow> bool" where
  "carries b name = truthy_opt truthy (field b name)"

text \<open>A table with one active key, where \<open>UPDATE\<close> statements fail, or nothing fails.\<close>

definition one_key :: "api_key_row list" where
  "one_key = [\<lparr>key_id = ''id-1'', api_key = ''k1'', client_name = ''client'',
               is_active = True, created_at = 0, last_used = None, permissions = []\<rparr>]"

definition update_fails :: cassandra where
  "update_fails = \<lparr>api_keys = one_key, failing = (\<lambda>s. s = Update)\<rparr>"

definition healthy :: cassandra where
  "healthy = \<lparr>api_keys = one_key, failing = (\<lambda>s. False)\<rparr>"

definition select_fails :: cassandra where
  "select_fails = \<lparr>api_keys = one_key, failing = (\<lambda>s. s = Select)\<rparr>"

definition retired :: cassandra where
  "retired = \<lparr>api_keys = map (\<lambda>row. row\<lparr>is_active := False\<rparr>) one_key,
              failing = (\<lambda>s. False)\<rparr>"

text \<open>An environment for examples: the messages of the API documentation, a stand-in for
  \<open>bcrypt\<close>, no configured expiration; and a world with one registered user.\<close>

fun documented_message :: "ErrorCode \<Rightarrow> string" where
  "documented_message EMAIL_NOT_FOUND = ''Email address not found in the system''"
| "documented_message MISSING_INFORMATION = ''Email and password are required''"
| "documented_message INCORRECT_PASSWORD = ''Password is incorrect''"
| "documented_message INVALID_CREDENTIALS = ''Invalid credentials provided''"
| "documented_message USER_NOT_FOUND = ''User not found''"
| "documented_message EMAIL_ALREADY_EXISTS = ''Email already registered''"
| "documented_message DATABASE_ERROR = ''Database error occurred''"
| "documented_message SESSION_CREATION_ERROR = ''Failed to create session token''"
| "documented_message SESSION_INVALID = ''Session token is invalid or does not exist''"
| "documented_message SESSION_EXPIRED = ''Session token has expired''"

definition example_env :: auth_env where
  "example_env =
     \<lparr>ERROR_CODE_MESSAGES = documented_message,
      bcrypt_compare = (\<lambda>pw h. h = ''hash:'' @ pw),
      bcrypt_hash = (\<lambda>pw. ''hash:'' @ pw),
      jwtExpiration = None,
      date_fmt = fmt_ms\<rparr>"

definition example_world :: world where
  "example_world =
     \<lparr>graph = \<lparr>users = [\<lparr>node_email = ''u@x.com'', hashedPassword = Some ''hash:pw''\<rparr>],
               neo4j_up = True\<rparr>,
      store = epoch_store\<rparr>"

definition credentials_of :: "string \<Rightarrow> string \<Rightarrow> LoginRequestDto" where
  "credentials_of e pw = \<lparr>email = Some e, password = Some pw\<rparr>"

definition signup_of :: "string \<Rightarrow> string \<Rightarrow> SignupRequestDto" where
  "signup_of e pw = \<lparr>signup_email = Some e, encryptedPassword = Some pw\<rparr>"

definition rnd32 :: "byte list" where
  "rnd32 = replicate 32 0xab"

text \<open>A failure response as \<open>createErrorResponse\<close> builds it: the message of the code, and
  neither a token nor a code member.\<close>

definition plain_failure :: "auth_env \<Rightarrow> ErrorCode \<Rightarrow> LoginResponseDto \<Rightarrow> bool" where
  "plain_failure E c resp =
     (success resp = False \<and> sessionToken resp = None
      \<and> message resp = ERROR_CODE_MESSAGES E c \<and> code resp = None)"

text \<open>What is assumed of the cipher at one call of \<open>encrypt\<close>: with this algorithm, this key
  and the nonce drawn it encrypts these bytes, and its decipher restores them from what it
  produced.\<close>

definition restores :: "node \<Rightarrow> string \<Rightarrow> byte list \<Rightarrow> byte list \<Rightarrow> byte list \<Rightarrow> bool" where
  "restores lib alg key nonce bytes =
     (case cipher_encrypt lib alg key nonce bytes of
        None \<Rightarrow> False
      | Some (encrypted, tag) \<Rightarrow> cipher_decrypt lib alg key nonce tag encrypted = Some bytes)"

definition ascii :: "string \<Rightarrow> bool" where
  "ascii s = (\<forall>c \<in> set s. (of_char c :: nat) < 128)"

text \<open>The key of the default local configuration: 32 characters, 16 bytes as hex.\<close>

definition local_key :: string where
  "local_key = ''0123456789abcdef0123456789abcdef''"





text \<open>
  A library whose cipher knows one algorithm and throws unless the key has 32 bytes and the
  nonce 16: it shifts every byte by the first byte of the key and the first of the nonce,
  and its tag is the first 16 bytes of the key. Beside it, the service that the local key
  gives and a nonce of 16 bytes.
\<close>

definition strict_lib :: node where
  "strict_lib =
     \<lparr>cipher_encrypt = (\<lambda>alg key nonce plain.
        if alg = ''aes-256-gcm'' \<and> length key = 32 \<and> length nonce = 16
          then Some (map (\<lambda>b. b + hd key + hd nonce) plain, take 16 key)
        else None),
      cipher_decrypt = (\<lambda>alg key nonce tag encrypted.
        if alg = ''aes-256-gcm'' \<and> length key = 32 \<and> length nonce = 16 \<and> tag = take 16 key
          then Some (map (\<lambda>b. b - hd key - hd nonce) encrypted)
        else None),
      toString_utf8 = ascii_of_bytes,
      JSON_parse = (\<lambda>s. None),
      untyped_decrypt = (\<lambda>alg key v. Inl TypeError)\<rparr>"

definition local_service :: EncryptionService where
  "local_service = \<lparr>encryptionKey = Buffer_from local_key, algorithm = ''aes-256-gcm''\<rparr>"

definition nonce16 :: "byte list" where
  "nonce16 = replicate 16 7"

section \<open>Hexadecimal and decimal text\<close>

declare digits_of.simps [simp del]

declare bitlen.simps [simp del]

lemma enumeration_order_Nil [simp]: "enumeration_order [] = []"
  by (simp add: enumeration_order_def)




lemma length_toString_hex: "length (toString_hex bs) = 2 * length bs"
  by (induction bs) (simp_all add: toString_hex_def)


lemma below_16: "k < (16::nat) \<Longrightarrow>
  k = 0 \<or> k = 1 \<or> k = 2 \<or> k = 3 \<or> k = 4 \<or> k = 5 \<or> k = 6 \<or> k = 7 \<or> k = 8 \<or> k = 9
  \<or> k = 10 \<or> k = 11 \<or> k = 12 \<or> k = 13 \<or> k = 14 \<or> k = 15"
  by arith

lemma hex_val_hex_digits: "k < 16 \<Longrightarrow> hex_val (hex_digits ! k) = Some k"
  by (drule below_16) (auto simp: hex_val_def hex_digits_def)

lemma hex_val_hex_digit: "hex_val (hex_digit n) = Some (n mod 16)"
  by (simp add: hex_digit_def hex_val_hex_digits)

lemma byte_split:
  "16 * word_of_nat (unat b div 16 mod 16) + word_of_nat (unat b mod 16) = (b :: byte)"
proof -
  have "unat b < 256" using unsigned_less [of b] by simp
  then have "unat b div 16 < 16" by simp
  then have "16 * (unat b div 16 mod 16) + unat b mod 16 = unat b" by simp
  then have "(of_nat (16 * (unat b div 16 mod 16) + unat b mod 16) :: byte) = of_nat (unat b)"
    by (rule arg_cong)
  then show ?thesis by simp
qed

lemma Buffer_from_hex_toString_hex: "Buffer_from_hex (toString_hex bs) = bs"
  by (induction bs) (simp_all add: toString_hex_def hex_val_hex_digit byte_split)












section \<open>The session store\<close>

lemma sessionKey_neq_metadataKey: "sessionKey t \<noteq> metadataKey t"
proof
  assume "sessionKey t = metadataKey t"
  then have "length (sessionKey t) = length (metadataKey t)" by simp
  then show False by (simp add: sessionKey_def metadataKey_def)
qed

lemma get_connected:
  "connected r \<Longrightarrow>
   get r k = Inr (case kv r k of None \<Rightarrow> None
                  | Some e \<Rightarrow> if live r e then Some (val e) else None)"
  by (simp add: get_def client_get_def)

lemma get_disconnected: "\<not> connected r \<Longrightarrow> get r k = Inl RedisError"
  by (simp add: get_def client_get_def)

lemma truthy_get:
  assumes "nonempty_values r"
  shows "truthy_opt truthy_str
           (case kv r k of None \<Rightarrow> None | Some e \<Rightarrow> if live r e then Some (val e) else None)
         = present r k"
  using assms
  by (auto simp: truthy_opt_def truthy_str_def present_def nonempty_values_def
           split: option.splits)

lemma checkSessionStatus_connected:
  assumes "connected r" and "nonempty_values r"
  shows "checkSessionStatus r token =
           Inr (if present r (sessionKey token) then VALID
                else if present r (metadataKey token) then EXPIRED
                else INVALID)"
  using assms
  by (simp add: checkSessionStatus_def get_connected truthy_get VALID_def EXPIRED_def
        INVALID_def)

subsection \<open>The stored values are never empty\<close>

lemma nonempty_values_empty: "nonempty_values epoch_store"
  by (simp add: nonempty_values_def epoch_store_def)

lemma set_key_nonempty:
  assumes "nonempty_values r" and "v \<noteq> []"
  shows "nonempty_values (snd (set_key r k v ttl))"
  using assms
  by (auto simp: nonempty_values_def set_key_def client_set_def client_setEx_def
           split: option.splits number.splits)

lemma storeSession_nonempty:
  assumes "nonempty_values r"
  shows "nonempty_values (snd (storeSession fmt r token data ttl))"
proof -
  let ?r1 = "snd (set_key r (sessionKey token) (JSON_stringify (JObj data)) (Some ttl))"
  have 1: "nonempty_values ?r1" using assms by (rule set_key_nonempty) simp
  have 2: "nonempty_values (snd (set_key ?r1 k (JSON_stringify (metadata_of a b c)) t))"
    for k a b c t
    using 1 by (rule set_key_nonempty) (simp add: metadata_of_def)
  show ?thesis
    using 1 2 unfolding storeSession_def
    by (auto split: prod.splits option.splits sum.splits)
qed

lemma deleteSession_nonempty:
  assumes "nonempty_values r"
  shows "nonempty_values (snd (deleteSession r token))"
  using assms
  by (auto simp: nonempty_values_def deleteSession_def delete_def client_del_def
           split: prod.splits if_splits)

subsection \<open>Storing a session\<close>

lemma set_key_positive:
  assumes "connected r" and "0 < n"
  shows "set_key r k v (Some (Num n)) =
           (None, r\<lparr>kv := (kv r)(k \<mapsto> \<lparr>val = v, expireAt = Some (now r + n * 1000)\<rparr>)\<rparr>)"
  using assms by (simp add: set_key_def client_setEx_def)

lemma set_key_zero:
  assumes "connected r"
  shows "set_key r k v (Some (Num 0)) =
           (None, r\<lparr>kv := (kv r)(k \<mapsto> \<lparr>val = v, expireAt = None\<rparr>)\<rparr>)"
  using assms by (simp add: set_key_def client_set_def)

lemma storeSession_positive:
  assumes "connected r" and "0 < n" and "\<bar>now r + n * 1000\<bar> \<le> 8640000000000000"
  shows "storeSession fmt r token data (Num n) =
           (None, r\<lparr>kv := (kv r)
              (sessionKey token \<mapsto>
                 \<lparr>val = JSON_stringify (JObj data), expireAt = Some (now r + n * 1000)\<rparr>,
               metadataKey token \<mapsto>
                 \<lparr>val = JSON_stringify (metadata_of (fmt (now r)) (fmt (now r + n * 1000)) token),
                  expireAt = Some (now r + n * 2 * 1000)\<rparr>)\<rparr>)"
  using assms
  by (simp add: storeSession_def set_key_positive toISOString_def)

lemma storeSession_two_writes:
  assumes "connected r" and "0 < n" and "\<bar>now r + n * 1000\<bar> \<le> 8640000000000000"
  shows "storeSession fmt r token data (Num n) =
           set_key (snd (set_key r (sessionKey token) (JSON_stringify (JObj data)) (Some (Num n))))
             (metadataKey token)
             (JSON_stringify (metadata_of (fmt (now r)) (fmt (now r + n * 1000)) token))
             (Some (Num (n * 2)))"
  using assms
  by (simp add: storeSession_def set_key_positive toISOString_def)

lemma storeSession_then_valid:
  assumes "connected r" and "0 < n" and "\<bar>now r + n * 1000\<bar> \<le> 8640000000000000"
  shows "checkSessionStatus (snd (storeSession fmt r token data (Num n))) token = Inr VALID"
  using assms sessionKey_neq_metadataKey [of token]
  by (simp add: storeSession_positive checkSessionStatus_def get_connected live_def
        truthy_opt_def truthy_str_def VALID_def)

text \<open>
  C2, as stated, fails for \<open>ttlSeconds = 0\<close>: \<open>set\<close> tests \<open>if (ttl)\<close>, so both records are
  written without any expiry instead of with a TTL of 0 seconds.
\<close>

theorem storeSession_zero_ttl_counterexample:
  "kv (snd (storeSession fmt_ms epoch_store ''ab'' [] (Num 0))) (sessionKey ''ab'')
     = Some \<lparr>val = ''{}'', expireAt = None\<rparr>
   \<and> Some \<lparr>val = ''{}'', expireAt = None\<rparr>
     \<noteq> Some \<lparr>val = ''{}'', expireAt = Some (now epoch_store + 0 * 1000)\<rparr>"
proof -
  have c: "connected epoch_store" by (simp add: epoch_store_def)
  have "storeSession fmt_ms epoch_store ''ab'' [] (Num 0)
        = (None, epoch_store\<lparr>kv := (kv epoch_store)
              (sessionKey ''ab'' \<mapsto> \<lparr>val = ''{}'', expireAt = None\<rparr>,
               metadataKey ''ab'' \<mapsto>
                 \<lparr>val = JSON_stringify (metadata_of (fmt_ms 0) (fmt_ms 0) ''ab''),
                  expireAt = None\<rparr>)\<rparr>)"
    using c by (simp add: storeSession_def set_key_zero toISOString_def epoch_store_def)
  then show ?thesis
    using sessionKey_neq_metadataKey [of "''ab''"] by simp
qed

text \<open>
  C2, amended. For every token, payload and positive whole number \<open>n\<close> of seconds whose
  expiry instant is a valid date, \<open>storeSession\<close> on a connected store succeeds and changes
  exactly two keys: the primary key holds the serialised payload and expires \<open>n\<close> seconds
  from now, the metadata key holds the serialised \<open>{createdAt, expiresAt, token}\<close> and
  expires \<open>2 n\<close> seconds from now; the result is that of two successive \<open>set\<close> calls, and
  \<open>checkSessionStatus\<close> on the token then answers VALID.
\<close>

theorem storeSession_positive_ttl:
  "connected r \<Longrightarrow> 0 < n \<Longrightarrow> \<bar>now r + n * 1000\<bar> \<le> 8640000000000000 \<Longrightarrow>
     storeSession fmt r token data (Num n) =
       (None, r\<lparr>kv := (kv r)
          (sessionKey token \<mapsto>
             \<lparr>val = JSON_stringify (JObj data), expireAt = Some (now r + n * 1000)\<rparr>,
           metadataKey token \<mapsto>
             \<lparr>val = JSON_stringify (metadata_of (fmt (now r)) (fmt (now r + n * 1000)) token),
              expireAt = Some (now r + n * 2 * 1000)\<rparr>)\<rparr>)
     \<and> storeSession fmt r token data (Num n) =
         set_key (snd (set_key r (sessionKey token) (JSON_stringify (JObj data)) (Some (Num n))))
           (metadataKey token)
           (JSON_stringify (metadata_of (fmt (now r)) (fmt (now r + n * 1000)) token))
           (Some (Num (n * 2)))
     \<and> checkSessionStatus (snd (storeSession fmt r token data (Num n))) token = Inr VALID"
  using storeSession_positive storeSession_two_writes storeSession_then_valid by blast

theorem storeSession_positive_ttl_witness:
  "connected epoch_store \<and> (0::int) < 60 \<and> \<bar>now epoch_store + 60 * 1000\<bar> \<le> 8640000000000000
   \<and> checkSessionStatus (snd (storeSession fmt_ms epoch_store ''ab'' [] (Num 60))) ''ab'' = Inr VALID"
proof -
  have c: "connected epoch_store" by (simp add: epoch_store_def)
  have b: "\<bar>now epoch_store + 60 * 1000\<bar> \<le> 8640000000000000" by (simp add: epoch_store_def)
  have p: "(0::int) < 60" by simp
  from storeSession_positive_ttl [OF c p b, of fmt_ms "''ab''" "[]"] c b p show ?thesis by blast
qed

subsection \<open>A session through its life\<close>

text \<open>Once the primary record has expired the session reads EXPIRED until the metadata
  record expires too; a deleted session reads INVALID at once.\<close>

lemma storeSession_then_expired:
  assumes "connected r" and "0 < n" and "\<bar>now r + n * 1000\<bar> \<le> 8640000000000000"
    and "n * 1000 \<le> ms" and "ms < n * 2 * 1000"
  shows "checkSessionStatus (advance (snd (storeSession fmt r token data (Num n))) ms) token
           = Inr EXPIRED"
  using assms sessionKey_neq_metadataKey [of token]
  by (simp add: storeSession_positive checkSessionStatus_def get_connected live_def advance_def
        truthy_opt_def truthy_str_def EXPIRED_def metadata_of_def)

lemma storeSession_then_gone:
  assumes "connected r" and "0 < n" and "\<bar>now r + n * 1000\<bar> \<le> 8640000000000000"
    and "n * 2 * 1000 \<le> ms"
  shows "checkSessionStatus (advance (snd (storeSession fmt r token data (Num n))) ms) token
           = Inr INVALID"
  using assms sessionKey_neq_metadataKey [of token]
  by (simp add: storeSession_positive checkSessionStatus_def get_connected live_def advance_def
        truthy_opt_def truthy_str_def INVALID_def)

lemma deleteSession_then_invalid:
  assumes "connected r"
  shows "checkSessionStatus (snd (deleteSession r token)) token = Inr INVALID"
  using assms
  by (simp add: deleteSession_def delete_def client_del_def checkSessionStatus_def get_connected
        truthy_opt_def INVALID_def)

lemma minute_session_eq:
  "minute_session = epoch_store\<lparr>kv := (kv epoch_store)
              (sessionKey ''ab'' \<mapsto>
                 \<lparr>val = JSON_stringify (JObj []), expireAt = Some 60000\<rparr>,
               metadataKey ''ab'' \<mapsto>
                 \<lparr>val = JSON_stringify (metadata_of (fmt_ms 0) (fmt_ms 60000) ''ab''),
                  expireAt = Some 120000\<rparr>)\<rparr>"
proof -
  have c: "connected epoch_store" by (simp add: epoch_store_def)
  have b: "\<bar>now epoch_store + 60 * 1000\<bar> \<le> 8640000000000000" by (simp add: epoch_store_def)
  show ?thesis unfolding minute_session_def
    using storeSession_positive [OF c _ b, of fmt_ms "''ab''" "[]"]
    by (simp add: epoch_store_def)
qed

lemma status_minute_session: "checkSessionStatus minute_session ''ab'' = Inr VALID"
  using sessionKey_neq_metadataKey [of "''ab''"]
  by (simp add: minute_session_eq checkSessionStatus_def get_connected live_def epoch_store_def
        truthy_opt_def truthy_str_def VALID_def)

lemma status_expired: "checkSessionStatus (advance minute_session 60000) ''ab'' = Inr EXPIRED"
  using sessionKey_neq_metadataKey [of "''ab''"]
  by (simp add: minute_session_eq advance_def checkSessionStatus_def get_connected live_def
        epoch_store_def truthy_opt_def truthy_str_def EXPIRED_def metadata_of_def)

lemma status_gone: "checkSessionStatus (advance minute_session 120000) ''ab'' = Inr INVALID"
  using sessionKey_neq_metadataKey [of "''ab''"]
  by (simp add: minute_session_eq advance_def checkSessionStatus_def get_connected live_def
        epoch_store_def truthy_opt_def truthy_str_def INVALID_def metadata_of_def)

lemma status_offline: "checkSessionStatus offline_store ''ab'' = Inl RedisError"
  by (simp add: checkSessionStatus_def get_disconnected offline_store_def)

lemma minute_session_wf:
  "connected minute_session" "nonempty_values minute_session"
  "connected (advance minute_session ms)" "nonempty_values (advance minute_session ms)"
proof -
  show "connected minute_session" "connected (advance minute_session ms)"
    by (simp_all add: minute_session_eq advance_def epoch_store_def)
  show n: "nonempty_values minute_session"
    unfolding minute_session_def using nonempty_values_empty by (rule storeSession_nonempty)
  then show "nonempty_values (advance minute_session ms)"
    by (simp add: nonempty_values_def advance_def)
qed

lemma minute_session_present:
  "present minute_session (sessionKey ''ab'')"
  "\<not> present (advance minute_session 60000) (sessionKey ''ab'')"
  "present (advance minute_session 60000) (metadataKey ''ab'')"
  "\<not> present (advance minute_session 120000) (sessionKey ''ab'')"
  "\<not> present (advance minute_session 120000) (metadataKey ''ab'')"
  using sessionKey_neq_metadataKey [of "''ab''"]
  by (simp_all add: minute_session_eq advance_def present_def live_def epoch_store_def)

subsection \<open>The three-way classification\<close>

text \<open>
  C1. In a connected store whose values are non-empty, \<open>checkSessionStatus\<close> answers, for
  every token, VALID if the primary record is present, otherwise EXPIRED if the metadata
  record is present, otherwise INVALID; in particular it answers INVALID for a token
  neither of whose keys is in the store.
\<close>

theorem checkSessionStatus_three_way:
  "connected r \<Longrightarrow> nonempty_values r \<Longrightarrow>
     checkSessionStatus r token =
       Inr (if present r (sessionKey token) then VALID
            else if present r (metadataKey token) then EXPIRED
            else INVALID)
     \<and> (kv r (sessionKey token) = None \<and> kv r (metadataKey token) = None
          \<longrightarrow> checkSessionStatus r token = Inr INVALID)"
  by (simp add: checkSessionStatus_connected present_def)

theorem checkSessionStatus_three_way_witness:
  "checkSessionStatus minute_session ''ab'' = Inr VALID
   \<and> checkSessionStatus (advance minute_session 60000) ''ab'' = Inr EXPIRED
   \<and> checkSessionStatus (advance minute_session 120000) ''ab'' = Inr INVALID
   \<and> checkSessionStatus epoch_store ''cd'' = Inr INVALID"
proof -
  have c: "connected epoch_store" by (simp add: epoch_store_def)
  have k: "kv epoch_store (sessionKey ''cd'') = None \<and> kv epoch_store (metadataKey ''cd'') = None"
    by (simp add: epoch_store_def)
  from checkSessionStatus_three_way [OF c nonempty_values_empty, of "''cd''"] k
  have 4: "checkSessionStatus epoch_store ''cd'' = Inr INVALID" by blast
  have 1: "checkSessionStatus minute_session ''ab'' = Inr VALID"
    using checkSessionStatus_three_way [OF minute_session_wf(1,2), of "''ab''"]
    by (simp add: minute_session_present)
  have 2: "checkSessionStatus (advance minute_session 60000) ''ab'' = Inr EXPIRED"
    using checkSessionStatus_three_way [OF minute_session_wf(3,4), of 60000 "''ab''"]
    by (simp add: minute_session_present)
  have 3: "checkSessionStatus (advance minute_session 120000) ''ab'' = Inr INVALID"
    using checkSessionStatus_three_way [OF minute_session_wf(3,4), of 120000 "''ab''"]
    by (simp add: minute_session_present)
  from 1 2 3 4 show ?thesis by blast
qed

section \<open>Verifying a session\<close>

text \<open>
  C3. For every token, \<open>verifySession\<close> returns \<open>(true, false, null)\<close> when the store
  reports valid, \<open>(false, true, SESSION_EXPIRED)\<close> when it reports expired,
  \<open>(false, false, SESSION_INVALID)\<close> when it reports neither, and
  \<open>(false, false, DATABASE_ERROR)\<close> when the store call throws; it returns one
  of these four in every case, and so never throws.
\<close>

theorem verifySession_outcomes:
  "(checkSessionStatus r token = Inr st \<and> valid st \<longrightarrow>
      verifySession r token = \<lparr>valid = True, expired = False, vcode = None\<rparr>)
   \<and> (checkSessionStatus r token = Inr st \<and> \<not> valid st \<and> expired st \<longrightarrow>
      verifySession r token = \<lparr>valid = False, expired = True, vcode = Some SESSION_EXPIRED\<rparr>)
   \<and> (checkSessionStatus r token = Inr st \<and> \<not> valid st \<and> \<not> expired st \<longrightarrow>
      verifySession r token = \<lparr>valid = False, expired = False, vcode = Some SESSION_INVALID\<rparr>)
   \<and> (checkSessionStatus r token = Inl e \<longrightarrow>
      verifySession r token = \<lparr>valid = False, expired = False, vcode = Some DATABASE_ERROR\<rparr>)
   \<and> verifySession r token \<in>
        {\<lparr>valid = True, expired = False, vcode = None\<rparr>,
         \<lparr>valid = False, expired = True, vcode = Some SESSION_EXPIRED\<rparr>,
         \<lparr>valid = False, expired = False, vcode = Some SESSION_INVALID\<rparr>,
         \<lparr>valid = False, expired = False, vcode = Some DATABASE_ERROR\<rparr>}"
  by (simp add: verifySession_def split: sum.splits)

theorem verifySession_outcomes_witness:
  "verifySession minute_session ''ab'' = \<lparr>valid = True, expired = False, vcode = None\<rparr>
   \<and> verifySession (advance minute_session 60000) ''ab''
       = \<lparr>valid = False, expired = True, vcode = Some SESSION_EXPIRED\<rparr>
   \<and> verifySession (advance minute_session 120000) ''ab''
       = \<lparr>valid = False, expired = False, vcode = Some SESSION_INVALID\<rparr>
   \<and> verifySession offline_store ''ab''
       = \<lparr>valid = False, expired = False, vcode = Some DATABASE_ERROR\<rparr>"
  using verifySession_outcomes [of minute_session "''ab''" VALID]
    verifySession_outcomes [of "advance minute_session 60000" "''ab''" EXPIRED]
    verifySession_outcomes [of "advance minute_session 120000" "''ab''" INVALID]
    verifySession_outcomes [of offline_store "''ab''" _ RedisError]
  by (simp add: VALID_def EXPIRED_def INVALID_def status_minute_session status_expired
        status_gone status_offline)

section \<open>The decrypt gate\<close>

lemma intercept_mutating:
  assumes "method req \<in> {''POST'', ''PUT'', ''PATCH''}"
  shows "intercept lib svc req =
           (case intercept_try lib svc req of
              Inl e \<Rightarrow> Inl (BadRequestException (case e of BadRequestException m \<Rightarrow> m | _ \<Rightarrow> INVALID_ENCRYPTED_FORMAT))
            | Inr req' \<Rightarrow> Inr req')"
  using assms by (auto simp: intercept_def split: sum.splits exn.splits)

lemma intercept_absent:
  assumes "method req \<in> {''POST'', ''PUT'', ''PATCH''}" and "body req = None"
  shows "intercept lib svc req = Inl (BadRequestException MISSING_ENCRYPTED_PAYLOAD)"
  using assms by (simp add: intercept_mutating intercept_try_def)

lemma intercept_falsy:
  assumes "method req \<in> {''POST'', ''PUT'', ''PATCH''}" and "body req = Some b" and "\<not> truthy b"
  shows "intercept lib svc req = Inl (BadRequestException MISSING_ENCRYPTED_PAYLOAD)"
  using assms by (simp add: intercept_mutating intercept_try_def)

lemma intercept_plain:
  assumes "method req \<in> {''POST'', ''PUT'', ''PATCH''}" and "body req = Some b" and "truthy b"
    and "\<not> (carries b ''ciphertext'' \<and> carries b ''iv'' \<and> carries b ''authTag'')"
  shows "intercept lib svc req = Inr req"
  using assms by (auto simp add: intercept_mutating intercept_try_def carries_def)

lemma intercept_encrypted:
  assumes "method req \<in> {''POST'', ''PUT'', ''PATCH''}" and "body req = Some b" and "truthy b"
    and "carries b ''ciphertext''" and "carries b ''iv''" and "carries b ''authTag''"
  shows "intercept lib svc req =
           (case decryptFromRequest lib svc b of
              Inl e \<Rightarrow> Inl (BadRequestException INVALID_ENCRYPTED_FORMAT)
            | Inr s \<Rightarrow>
                (case JSON_parse lib s of
                   None \<Rightarrow> Inl (BadRequestException INVALID_ENCRYPTED_FORMAT)
                 | Some j \<Rightarrow> Inr (req\<lparr>body := Some j\<rparr>)))"
  using assms
  by (auto simp add: intercept_mutating intercept_try_def carries_def split: sum.splits option.splits)

text \<open>
  C4, amended. For every POST, PUT or PATCH request: if the body is absent (or falsy) the
  gate rejects with the bad-request error "Missing encrypted payload"; if the body lacks
  one of \<open>ciphertext\<close>, \<open>iv\<close>, \<open>authTag\<close>, or holds an empty (falsy) value for one, the
  request passes through unmodified; if all three are there and truthy, the body is
  decrypted and, when decryption and \<open>JSON.parse\<close> succeed, replaced by the parsed
  plaintext, while a failure of either is rejected with the one bad-request error
  "Invalid encrypted payload format", whatever failed.
\<close>

theorem intercept_gate:
  "method req \<in> {''POST'', ''PUT'', ''PATCH''} \<Longrightarrow>
     (body req = None \<or> (body req = Some b \<and> \<not> truthy b)
        \<longrightarrow> intercept lib svc req = Inl (BadRequestException MISSING_ENCRYPTED_PAYLOAD))
     \<and> (body req = Some b \<and> truthy b
          \<and> \<not> (carries b ''ciphertext'' \<and> carries b ''iv'' \<and> carries b ''authTag'')
        \<longrightarrow> intercept lib svc req = Inr req)
     \<and> (body req = Some b \<and> truthy b
          \<and> carries b ''ciphertext'' \<and> carries b ''iv'' \<and> carries b ''authTag''
        \<longrightarrow> (decryptFromRequest lib svc b = Inr s \<and> JSON_parse lib s = Some j
               \<longrightarrow> intercept lib svc req = Inr (req\<lparr>body := Some j\<rparr>))
          \<and> (decryptFromRequest lib svc b = Inl e
              \<or> (decryptFromRequest lib svc b = Inr s \<and> JSON_parse lib s = None)
               \<longrightarrow> intercept lib svc req = Inl (BadRequestException INVALID_ENCRYPTED_FORMAT)))"
  using intercept_absent [of req lib svc] intercept_falsy [of req b lib svc]
    intercept_plain [of req b lib svc] intercept_encrypted [of req b lib svc]
  by auto

text \<open>
  C10. For every POST, PUT or PATCH request whose body is an object in which one of
  \<open>ciphertext\<close>, \<open>iv\<close>, \<open>authTag\<close> is the empty string, the gate passes the request through
  unmodified, whatever the library would make of the envelope: nothing is decrypted and
  nothing is rejected.
\<close>

theorem empty_field_passes_through:
  "method req \<in> {''POST'', ''PUT'', ''PATCH''} \<Longrightarrow> body req = Some (JObj members) \<Longrightarrow>
   name \<in> {''ciphertext'', ''iv'', ''authTag''} \<Longrightarrow> map_of members name = Some (JStr []) \<Longrightarrow>
     intercept lib svc req = Inr req"
  by (rule intercept_plain [where b = "JObj members"])
     (auto simp: carries_def truthy_opt_def truthy_str_def)


lemma toy_decrypt_ok: "decryptFromRequest toy_lib toy_service (envelope ''7b7d'' ''00'' ''0102'') = Inr ''{}''"
  by code_simp

lemma toy_decrypt_bad_tag: "decryptFromRequest toy_lib toy_service (envelope ''7b7d'' ''00'' ''0103'') = Inl CipherError"
  by code_simp

lemma toy_decrypt_bad_json: "decryptFromRequest toy_lib toy_service (envelope ''7b'' ''00'' ''0102'') = Inr ''{''"
  by code_simp

lemma toy_parse: "JSON_parse toy_lib ''{}'' = Some (JObj [])" "JSON_parse toy_lib ''{'' = None"
  by (simp_all add: toy_lib_def)

lemma post_method: "method (post b) \<in> {''POST'', ''PUT'', ''PATCH''}" "body (post b) = b"
  by (simp_all add: post_def)

lemma envelope_carries:
  "truthy (envelope c i t)"
  "carries (envelope c i t) ''ciphertext'' = (c \<noteq> [])"
  "carries (envelope c i t) ''iv'' = (i \<noteq> [])"
  "carries (envelope c i t) ''authTag'' = (t \<noteq> [])"
  by (simp_all add: envelope_def carries_def truthy_opt_def truthy_str_def)

theorem intercept_gate_witness:
  "intercept toy_lib toy_service (post None) = Inl (BadRequestException MISSING_ENCRYPTED_PAYLOAD)
   \<and> intercept toy_lib toy_service (post (Some (JObj [(''email'', JStr ''u@x.com'')])))
       = Inr (post (Some (JObj [(''email'', JStr ''u@x.com'')])))
   \<and> intercept toy_lib toy_service (post (Some (envelope ''7b7d'' ''00'' ''0102'')))
       = Inr ((post (Some (envelope ''7b7d'' ''00'' ''0102'')))\<lparr>body := Some (JObj [])\<rparr>)
   \<and> intercept toy_lib toy_service (post (Some (envelope ''7b7d'' ''00'' ''0103'')))
       = Inl (BadRequestException INVALID_ENCRYPTED_FORMAT)
   \<and> intercept toy_lib toy_service (post (Some (envelope ''7b'' ''00'' ''0102'')))
       = Inl (BadRequestException INVALID_ENCRYPTED_FORMAT)"
proof -
  let ?plain = "JObj [(''email'', JStr ''u@x.com'')]"
  have 1: "intercept toy_lib toy_service (post None)
             = Inl (BadRequestException MISSING_ENCRYPTED_PAYLOAD)"
    using intercept_gate [OF post_method(1), of None _ toy_lib toy_service]
    by (simp add: post_method)
  have "\<not> carries ?plain ''ciphertext''" by (simp add: carries_def truthy_opt_def)
  then have 2: "intercept toy_lib toy_service (post (Some ?plain)) = Inr (post (Some ?plain))"
    using intercept_gate [OF post_method(1), of "Some ?plain" ?plain toy_lib toy_service]
    by (simp add: post_method)
  have 3: "intercept toy_lib toy_service (post (Some (envelope ''7b7d'' ''00'' ''0102'')))
       = Inr ((post (Some (envelope ''7b7d'' ''00'' ''0102'')))\<lparr>body := Some (JObj [])\<rparr>)"
    using intercept_gate [OF post_method(1), of "Some (envelope ''7b7d'' ''00'' ''0102'')"
      "envelope ''7b7d'' ''00'' ''0102''" toy_lib toy_service "''{}''" "JObj []"]
    by (simp add: post_method envelope_carries toy_decrypt_ok toy_parse)
  have 4: "intercept toy_lib toy_service (post (Some (envelope ''7b7d'' ''00'' ''0103'')))
       = Inl (BadRequestException INVALID_ENCRYPTED_FORMAT)"
    using intercept_gate [OF post_method(1), of "Some (envelope ''7b7d'' ''00'' ''0103'')"
      "envelope ''7b7d'' ''00'' ''0103''" toy_lib toy_service _ _ CipherError]
    by (simp add: post_method envelope_carries toy_decrypt_bad_tag)
  have 5: "intercept toy_lib toy_service (post (Some (envelope ''7b'' ''00'' ''0102'')))
       = Inl (BadRequestException INVALID_ENCRYPTED_FORMAT)"
    using intercept_gate [OF post_method(1), of "Some (envelope ''7b'' ''00'' ''0102'')"
      "envelope ''7b'' ''00'' ''0102''" toy_lib toy_service "''{''"]
    by (simp add: post_method envelope_carries toy_decrypt_bad_json toy_parse)
  from 1 2 3 4 5 show ?thesis by blast
qed

text \<open>
  C4, as stated, fails on a body whose three members are all present, one of them empty:
  decryption would fail, yet the request is passed through instead of rejected.
\<close>

theorem intercept_present_but_empty_counterexample:
  "field (envelope [] ''00'' ''0102'') ''ciphertext'' \<noteq> None
   \<and> field (envelope [] ''00'' ''0102'') ''iv'' \<noteq> None
   \<and> field (envelope [] ''00'' ''0102'') ''authTag'' \<noteq> None
   \<and> decryptFromRequest failing_lib toy_service (envelope [] ''00'' ''0102'') = Inl CipherError
   \<and> intercept failing_lib toy_service (post (Some (envelope [] ''00'' ''0102'')))
       = Inr (post (Some (envelope [] ''00'' ''0102'')))"
proof -
  have "decryptFromRequest failing_lib toy_service (envelope [] ''00'' ''0102'') = Inl CipherError"
    by (simp add: decryptFromRequest_def decrypt_value_def decrypt_def envelope_def failing_lib_def)
  moreover have "intercept failing_lib toy_service (post (Some (envelope [] ''00'' ''0102'')))
       = Inr (post (Some (envelope [] ''00'' ''0102'')))"
    by (simp add: intercept_def intercept_try_def post_def envelope_def truthy_opt_def truthy_str_def)
  ultimately show ?thesis by (simp add: envelope_def)
qed

theorem empty_field_passes_through_witness:
  "method (post (Some (envelope ''7b7d'' [] ''0102''))) \<in> {''POST'', ''PUT'', ''PATCH''}
   \<and> ''iv'' \<in> {''ciphertext'', ''iv'', ''authTag''}
   \<and> map_of [(''ciphertext'', JStr ''7b7d''), (''iv'', JStr []), (''authTag'', JStr ''0102'')] ''iv''
       = Some (JStr [])
   \<and> intercept toy_lib toy_service (post (Some (envelope ''7b7d'' [] ''0102'')))
       = Inr (post (Some (envelope ''7b7d'' [] ''0102'')))"
proof -
  have m: "method (post (Some (envelope ''7b7d'' [] ''0102''))) \<in> {''POST'', ''PUT'', ''PATCH''}"
    by (simp add: post_def)
  have b: "body (post (Some (envelope ''7b7d'' [] ''0102'')))
             = Some (JObj [(''ciphertext'', JStr ''7b7d''), (''iv'', JStr []), (''authTag'', JStr ''0102'')])"
    by (simp add: post_def envelope_def)
  have n: "''iv'' \<in> {''ciphertext'', ''iv'', ''authTag''}" by simp
  have f: "map_of [(''ciphertext'', JStr ''7b7d''), (''iv'', JStr []), (''authTag'', JStr ''0102'')] ''iv''
       = Some (JStr [])" by simp
  from empty_field_passes_through [OF m b n f, of toy_lib toy_service] m n f
  show ?thesis by blast
qed

section \<open>Validating an API key\<close>

text \<open>
  C5, as stated, fails when the key is found and active and recording the last-used
  timestamp throws: the \<open>await\<close> is inside the \<open>try\<close>, so the validation is false.
\<close>

theorem validateApiKey_update_failure_counterexample:
  "getApiKey update_fails ''k1'' = Inr (Some \<lparr>keyId = ''id-1'', clientName = ''client'', isActive = True\<rparr>)
   \<and> fst (updateLastUsed update_fails 5 ''k1'') = Some CassandraError
   \<and> fst (validateApiKey update_fails 5 ''k1'') = False"
  by (simp add: validateApiKey_def getApiKey_def updateLastUsed_def update_fails_def one_key_def)

text \<open>
  C5, amended. For every key string, \<open>validateApiKey\<close> is false, and never throws, when the
  lookup throws, when no record is found and when the record is not active; when the
  record is found and active it is true if recording the last-used timestamp succeeds and
  false, again without throwing, if that fails.
\<close>

theorem validateApiKey_outcomes:
  "(getApiKey db apiKey = Inl e \<longrightarrow> fst (validateApiKey db t apiKey) = False)
   \<and> (getApiKey db apiKey = Inr None \<longrightarrow> fst (validateApiKey db t apiKey) = False)
   \<and> (getApiKey db apiKey = Inr (Some keyData) \<and> \<not> isActive keyData
        \<longrightarrow> fst (validateApiKey db t apiKey) = False)
   \<and> (getApiKey db apiKey = Inr (Some keyData) \<and> isActive keyData
        \<and> fst (updateLastUsed db t apiKey) = None
        \<longrightarrow> fst (validateApiKey db t apiKey) = True)
   \<and> (getApiKey db apiKey = Inr (Some keyData) \<and> isActive keyData
        \<and> fst (updateLastUsed db t apiKey) = Some e
        \<longrightarrow> fst (validateApiKey db t apiKey) = False)"
  by (auto simp: validateApiKey_def split: prod.splits option.splits)

lemma getApiKey_examples:
  "getApiKey healthy ''k1'' = Inr (Some \<lparr>keyId = ''id-1'', clientName = ''client'', isActive = True\<rparr>)"
  "getApiKey healthy ''zz'' = Inr None"
  "getApiKey select_fails ''k1'' = Inl CassandraError"
  "getApiKey retired ''k1'' = Inr (Some \<lparr>keyId = ''id-1'', clientName = ''client'', isActive = False\<rparr>)"
  "getApiKey update_fails ''k1'' = Inr (Some \<lparr>keyId = ''id-1'', clientName = ''client'', isActive = True\<rparr>)"
  by (simp_all add: getApiKey_def healthy_def select_fails_def retired_def update_fails_def one_key_def)

lemma updateLastUsed_examples:
  "fst (updateLastUsed healthy 5 ''k1'') = None"
  "fst (updateLastUsed update_fails 5 ''k1'') = Some CassandraError"
  by (simp_all add: updateLastUsed_def healthy_def update_fails_def)

theorem validateApiKey_outcomes_witness:
  "fst (validateApiKey select_fails 5 ''k1'') = False
   \<and> fst (validateApiKey healthy 5 ''zz'') = False
   \<and> fst (validateApiKey retired 5 ''k1'') = False
   \<and> fst (validateApiKey healthy 5 ''k1'') = True
   \<and> fst (validateApiKey update_fails 5 ''k1'') = False"
  using validateApiKey_outcomes [of select_fails "''k1''" CassandraError 5]
    validateApiKey_outcomes [of healthy "''zz''" _ 5]
    validateApiKey_outcomes [of retired "''k1''" _ 5 "\<lparr>keyId = ''id-1'', clientName = ''client'', isActive = False\<rparr>"]
    validateApiKey_outcomes [of healthy "''k1''" _ 5 "\<lparr>keyId = ''id-1'', clientName = ''client'', isActive = True\<rparr>"]
    validateApiKey_outcomes [of update_fails "''k1''" CassandraError 5 "\<lparr>keyId = ''id-1'', clientName = ''client'', isActive = True\<rparr>"]
  by (simp add: getApiKey_examples updateLastUsed_examples)

lemma updateLastUsed_records:
  "snd (validateApiKey healthy 5 ''k1'') = healthy\<lparr>api_keys := map (\<lambda>row. row\<lparr>last_used := Some 5\<rparr>) one_key\<rparr>"
  by (simp add: validateApiKey_def getApiKey_def updateLastUsed_def healthy_def one_key_def)

section \<open>Logging in\<close>





lemma login_not_found:
  assumes "email c = Some e" "e \<noteq> []" "password c = Some pw" "pw \<noteq> []"
    and "match_user (graph w) e = Inr []"
  shows "login E w c rnd = (createErrorResponse E (now (store w)) EMAIL_NOT_FOUND False, w)"
  using assms by (simp add: login_def truthy_str_def)

lemma login_incorrect:
  assumes "email c = Some e" "e \<noteq> []" "password c = Some pw" "pw \<noteq> []"
    and "match_user (graph w) e = Inr (u # us)" and "compare E pw (hashedPassword u) = Inr False"
  shows "login E w c rnd = (createErrorResponse E (now (store w)) INCORRECT_PASSWORD False, w)"
  using assms by (simp add: login_def truthy_str_def)

lemma signup_exists:
  assumes "signup_email d = Some e" "e \<noteq> []" "encryptedPassword d = Some pw" "pw \<noteq> []"
    and "match_user (graph w) e = Inr (u # us)"
  shows "signup E w d rnd = (createErrorResponse E (now (store w)) EMAIL_ALREADY_EXISTS False, w)"
  using assms by (simp add: signup_def truthy_str_def)




text \<open>A duration such as \<open>24h\<close> is read up to its first non-digit.\<close>

lemma parseInt_24h: "parseInt ''24h'' = Num 24"
  by (simp add: parseInt_def Let_def is_space_def digits_value_def digit_val_def hex_val_def
        nearest_double_def)



lemma plain_failure_createErrorResponse: "plain_failure E c (createErrorResponse E t c False)"
  by (simp add: plain_failure_def createErrorResponse_def)







lemma example_facts:
  "match_user (graph example_world) ''u@x.com''
     = Inr [\<lparr>node_email = ''u@x.com'', hashedPassword = Some ''hash:pw''\<rparr>]"
  "match_user (graph example_world) ''nobody@x.com'' = Inr []"
  "compare example_env ''pw'' (Some ''hash:pw'') = Inr True"
  "compare example_env ''bad'' (Some ''hash:pw'') = Inr False"
  "connected (store example_world)"
  "now (store example_world) = 0"
  "jwtExpiration example_env = None"
  "length rnd32 = 32"
  by (simp_all add: match_user_def example_world_def compare_def example_env_def
        epoch_store_def rnd32_def)
















section \<open>Failure responses\<close>

text \<open>
  C8, as stated, fails: the response built for an unknown email has no \<open>code\<close> member.
\<close>

theorem error_response_without_code_counterexample:
  "match_user (graph example_world) ''nobody@x.com'' = Inr []
   \<and> code (fst (login example_env example_world (credentials_of ''nobody@x.com'' ''pw'') rnd32))
       = None
   \<and> code (fst (login example_env example_world (credentials_of ''nobody@x.com'' ''pw'') rnd32))
       \<noteq> Some EMAIL_NOT_FOUND"
  by (simp add: login_not_found [of _ "''nobody@x.com''" "''pw''"] credentials_of_def
        example_facts createErrorResponse_def)

text \<open>
  C8, amended. For the failures "email not found" and "incorrect password" of \<open>login\<close>
  and "email already exists" of \<open>signup\<close>, the response has \<open>success = false\<close>, the
  message that \<open>ERROR_CODE_MESSAGES\<close> gives for the failure's code, no session token and no
  \<open>code\<close> member.
\<close>

theorem error_responses_plain:
  "(email c = Some e \<and> e \<noteq> [] \<and> password c = Some pw \<and> pw \<noteq> []
      \<and> match_user (graph w) e = Inr []
      \<longrightarrow> plain_failure E EMAIL_NOT_FOUND (fst (login E w c rnd)))
   \<and> (email c = Some e \<and> e \<noteq> [] \<and> password c = Some pw \<and> pw \<noteq> []
      \<and> match_user (graph w) e = Inr (u # us) \<and> compare E pw (hashedPassword u) = Inr False
      \<longrightarrow> plain_failure E INCORRECT_PASSWORD (fst (login E w c rnd)))
   \<and> (signup_email d = Some e \<and> e \<noteq> [] \<and> encryptedPassword d = Some pw \<and> pw \<noteq> []
      \<and> match_user (graph w) e = Inr (u # us)
      \<longrightarrow> plain_failure E EMAIL_ALREADY_EXISTS (fst (signup E w d rnd)))"
  using login_not_found [of c e pw w E rnd] login_incorrect [of c e pw w u us E rnd]
    signup_exists [of d e pw w u us E rnd] plain_failure_createErrorResponse
  by auto

theorem error_responses_plain_witness:
  "plain_failure example_env EMAIL_NOT_FOUND
     (fst (login example_env example_world (credentials_of ''nobody@x.com'' ''pw'') rnd32))
   \<and> plain_failure example_env INCORRECT_PASSWORD
     (fst (login example_env example_world (credentials_of ''u@x.com'' ''bad'') rnd32))
   \<and> plain_failure example_env EMAIL_ALREADY_EXISTS
     (fst (signup example_env example_world (signup_of ''u@x.com'' ''pw2'') rnd32))
   \<and> message (fst (login example_env example_world (credentials_of ''u@x.com'' ''bad'') rnd32))
       = ''Password is incorrect''"
proof -
  have 1: "plain_failure example_env EMAIL_NOT_FOUND
     (fst (login example_env example_world (credentials_of ''nobody@x.com'' ''pw'') rnd32))"
    using error_responses_plain [of "credentials_of ''nobody@x.com'' ''pw''" "''nobody@x.com''"
        "''pw''" example_world example_env rnd32]
    by (simp add: credentials_of_def example_facts)
  have 2: "plain_failure example_env INCORRECT_PASSWORD
     (fst (login example_env example_world (credentials_of ''u@x.com'' ''bad'') rnd32))"
    using error_responses_plain [of "credentials_of ''u@x.com'' ''bad''" "''u@x.com''"
        "''bad''" example_world example_env rnd32
        "\<lparr>node_email = ''u@x.com'', hashedPassword = Some ''hash:pw''\<rparr>" "[]"]
    by (simp add: credentials_of_def example_facts)
  have 3: "plain_failure example_env EMAIL_ALREADY_EXISTS
     (fst (signup example_env example_world (signup_of ''u@x.com'' ''pw2'') rnd32))"
    using error_responses_plain [of _ "''u@x.com''" "''pw2''" example_world example_env rnd32
        "\<lparr>node_email = ''u@x.com'', hashedPassword = Some ''hash:pw''\<rparr>" "[]"
        "signup_of ''u@x.com'' ''pw2''"]
    by (simp add: signup_of_def example_facts)
  from 2 have 4: "message (fst (login example_env example_world (credentials_of ''u@x.com'' ''bad'') rnd32))
       = ''Password is incorrect''"
    by (simp add: plain_failure_def example_env_def)
  from 1 2 3 4 show ?thesis by blast
qed

section \<open>Encrypting and decrypting\<close>

lemma even_length_toString_hex: "even (length (toString_hex bs))"
  by (simp add: length_toString_hex)

text \<open>
  C7. For every text \<open>P\<close> that survives UTF-8 (as every serialised JSON payload does) and
  every nonce the encryptor draws: if the cipher, with the service's algorithm and key and
  that nonce, encrypts the bytes of \<open>P\<close> and its decipher restores them, then \<open>encrypt\<close>
  produces an envelope, the envelope carries that nonce, and \<open>decrypt\<close> of the envelope,
  with the same service, is \<open>P\<close>.
\<close>

theorem decrypt_encrypt_roundtrip:
  "restores lib (algorithm svc) (encryptionKey svc) nonce (Buffer_from plain) \<Longrightarrow>
   toString_utf8 lib (Buffer_from plain) = plain \<Longrightarrow>
     \<exists>payload. encrypt lib svc nonce plain = Inr payload
        \<and> Buffer_from_hex (iv payload) = nonce
        \<and> decrypt lib svc payload = Inr plain"
proof -
  assume s: "restores lib (algorithm svc) (encryptionKey svc) nonce (Buffer_from plain)"
    and u: "toString_utf8 lib (Buffer_from plain) = plain"
  from s obtain encrypted tag where
    e: "cipher_encrypt lib (algorithm svc) (encryptionKey svc) nonce (Buffer_from plain)
          = Some (encrypted, tag)"
    and d: "cipher_decrypt lib (algorithm svc) (encryptionKey svc) nonce tag encrypted
          = Some (Buffer_from plain)"
    unfolding restores_def by (auto split: option.splits)
  let ?p = "\<lparr>ciphertext = toString_hex encrypted, iv = toString_hex nonce,
             authTag = toString_hex tag\<rparr>"
  have "encrypt lib svc nonce plain = Inr ?p" by (simp add: encrypt_def e)
  moreover have "Buffer_from_hex (iv ?p) = nonce" by (simp add: Buffer_from_hex_toString_hex)
  moreover have "decrypt lib svc ?p = Inr plain"
    by (simp add: decrypt_def Buffer_from_hex_toString_hex even_length_toString_hex d u)
  ultimately show ?thesis by blast
qed

lemma local_service_facts:
  "algorithm local_service = ''aes-256-gcm''"
  "encryptionKey local_service = Buffer_from local_key"
  "length (Buffer_from local_key) = 32"
  "length nonce16 = 16"
  "Buffer_from ''{}'' = [0x7b, 0x7d]"
  by (simp_all add: local_service_def local_key_def nonce16_def Buffer_from_def utf8_char_def)

text \<open>The strict cipher restores every text under a key of 32 bytes and a nonce of 16, and
  throws under any other.\<close>

lemma strict_restores:
  "restores strict_lib alg key nonce bytes
     \<longleftrightarrow> alg = ''aes-256-gcm'' \<and> length key = 32 \<and> length nonce = 16"
  by (simp add: restores_def strict_lib_def comp_def)

lemma strict_utf8: "toString_utf8 strict_lib (Buffer_from ''{}'') = ''{}''"
  by code_simp

lemma strict_encrypt:
  "encrypt strict_lib local_service nonce16 ''{}''
     = Inr \<lparr>ciphertext = ''b2b4'', iv = ''07070707070707070707070707070707'',
            authTag = ''30313233343536373839616263646566''\<rparr>"
  by code_simp

theorem decrypt_encrypt_roundtrip_witness:
  "restores strict_lib (algorithm local_service) (encryptionKey local_service) nonce16
     (Buffer_from ''{}'')
   \<and> toString_utf8 strict_lib (Buffer_from ''{}'') = ''{}''
   \<and> encrypt strict_lib local_service nonce16 ''{}''
       = Inr \<lparr>ciphertext = ''b2b4'', iv = ''07070707070707070707070707070707'',
              authTag = ''30313233343536373839616263646566''\<rparr>
   \<and> decrypt strict_lib local_service
        \<lparr>ciphertext = ''b2b4'', iv = ''07070707070707070707070707070707'',
         authTag = ''30313233343536373839616263646566''\<rparr>
       = Inr ''{}''"
proof -
  have r: "restores strict_lib (algorithm local_service) (encryptionKey local_service) nonce16
     (Buffer_from ''{}'')"
    by (simp add: strict_restores local_service_facts)
  from decrypt_encrypt_roundtrip [OF r strict_utf8] r strict_utf8 strict_encrypt
  show ?thesis by auto
qed

section \<open>Key material\<close>

lemma length_Buffer_from_ascii: "ascii s \<Longrightarrow> length (Buffer_from s) = length s"
  by (induction s) (simp_all add: Buffer_from_def utf8_char_def ascii_def)

lemma pad_truncate_long: "32 \<le> length s \<Longrightarrow> substring 0 32 (padEnd 32 c s) = take 32 s"
  by (simp add: substring_def padEnd_def)

text \<open>
  C9, as stated, fails for a key string shorter than 32 characters: the helper's
  constructor throws instead of padding it.
\<close>

theorem short_key_counterexample:
  "length (Buffer_from_hex ''abc'') \<noteq> 32
   \<and> ApiEncryptionHelper ''abc'' ''aes-256-gcm''
       = Inl (Error ''Encryption key must be at least 32 characters long'')
   \<and> ApiEncryptionHelper ''abc'' ''aes-256-gcm''
       \<noteq> Inr \<lparr>encryptionKey = Buffer_from (substring 0 32 (padEnd 32 CHR ''0'' ''abc'')),
               algorithm = ''aes-256-gcm''\<rparr>"
  by (simp add: ApiEncryptionHelper_def hex_val_def)


lemma derive_key_long:
  assumes "32 \<le> length keyStr"
  shows "derive_key keyStr =
           (if length (Buffer_from_hex keyStr) = 32 then Buffer_from_hex keyStr
            else Buffer_from (take 32 keyStr))"
  using assms by (simp add: derive_key_def pad_truncate_long)

lemma initializeKeys_config:
  assumes "32 \<le> length keyStr"
  shows "encryptionKey (initializeKeys (Some keyStr) cfgAlg envKey envAlg) = derive_key keyStr"
  using assms by (simp add: initializeKeys_def initializeKeys_try_def getConfigWithFallback_def)

lemma initializeKeys_env:
  assumes "32 \<le> length keyStr"
  shows "encryptionKey (initializeKeys None cfgAlg (Some keyStr) envAlg) = derive_key keyStr"
proof -
  from assms have "keyStr \<noteq> []" by auto
  with assms show ?thesis
    by (simp add: initializeKeys_def initializeKeys_try_def getConfigWithFallback_def
          or_else_def truthy_str_def)
qed

lemma initializeKeys_env_short:
  assumes "length keyStr < 32"
  shows "encryptionKey (initializeKeys None cfgAlg (Some keyStr) envAlg)
           = Buffer_from (substring 0 32 (padEnd 32 CHR ''0'' keyStr))"
  using assms
  by (simp add: initializeKeys_def initializeKeys_try_def getConfigWithFallback_def
        or_else_def truthy_str_def)

lemma padded_length:
  assumes "length keyStr < 32" and "ascii keyStr"
  shows "length (Buffer_from (substring 0 32 (padEnd 32 CHR ''0'' keyStr))) = 32"
proof -
  have "ascii (substring 0 32 (padEnd 32 CHR ''0'' keyStr))"
    using assms by (auto simp: ascii_def substring_def padEnd_def)
  then show ?thesis
    using assms by (simp add: length_Buffer_from_ascii substring_def padEnd_def)
qed

lemma initializeKeys_fallback:
  assumes "length keyStr < 32"
  shows "encryptionKey (initializeKeys (Some keyStr) cfgAlg envKey envAlg) =
           (if 32 \<le> length (or_else envKey []) then Buffer_from_hex (or_else envKey [])
            else Buffer_from (substring 0 32 (padEnd 32 CHR ''0'' (or_else envKey []))))"
  using assms
  by (simp add: initializeKeys_def initializeKeys_try_def getConfigWithFallback_def Let_def)

lemma initializeKeys_nothing:
  "encryptionKey (initializeKeys None cfgAlg None envAlg) = Buffer_from (replicate 32 CHR ''0'')"
  by (simp add: initializeKeys_def initializeKeys_try_def getConfigWithFallback_def or_else_def
        substring_def padEnd_def)

lemma length_Buffer_from_hex: "2 * length (Buffer_from_hex s) \<le> length s"
  by (induction s rule: Buffer_from_hex.induct) (auto split: option.splits)

lemma initializeKeys_try_env_short:
  assumes "length keyStr < 32"
  shows "initializeKeys_try None cfgAlg (Some keyStr) envAlg
           = Inl (Error ''ENCRYPTION_KEY must be at least 32 characters long'')"
  using assms
  by (simp add: initializeKeys_try_def getConfigWithFallback_def or_else_def truthy_str_def)

text \<open>
  C9, amended. The key string is the configured one or, with nothing configured, the value
  of the environment variable. A key string of at least 32 characters is used as it is
  when its hex interpretation is exactly 32 bytes, by the service and by the helper;
  otherwise the key is the UTF-8 bytes of the raw string right-padded with \<open>'0'\<close> and
  cut to 32 characters, which are its first 32 characters, 32 bytes when they are ASCII.
  A key string shorter than 32 characters is refused by the length check of both. The
  helper's constructor then throws. The service then sets the key string aside and takes
  the key from the environment variable alone, absent counting as empty: a value shorter
  than 32 characters is right-padded with \<open>'0'\<close> to 32 characters, and a value whose
  hex interpretation is exactly 32 bytes is used as it is.
\<close>

theorem key_derivation:
  "(32 \<le> length keyStr \<longrightarrow>
      ApiEncryptionHelper keyStr alg = Inr \<lparr>encryptionKey = derive_key keyStr, algorithm = alg\<rparr>
      \<and> encryptionKey (initializeKeys (Some keyStr) cfgAlg envKey envAlg) = derive_key keyStr
      \<and> encryptionKey (initializeKeys None cfgAlg (Some keyStr) envAlg) = derive_key keyStr
      \<and> (length (Buffer_from_hex keyStr) = 32 \<longrightarrow> derive_key keyStr = Buffer_from_hex keyStr)
      \<and> (length (Buffer_from_hex keyStr) \<noteq> 32 \<longrightarrow>
            derive_key keyStr = Buffer_from (substring 0 32 (padEnd 32 CHR ''0'' keyStr))
            \<and> derive_key keyStr = Buffer_from (take 32 keyStr)
            \<and> (ascii (take 32 keyStr) \<longrightarrow> length (derive_key keyStr) = 32)))
   \<and> (length keyStr < 32 \<longrightarrow>
      ApiEncryptionHelper keyStr alg
        = Inl (Error ''Encryption key must be at least 32 characters long'')
      \<and> initializeKeys_try (Some keyStr) cfgAlg envKey envAlg
        = Inl (Error ''ENCRYPTION_KEY must be at least 32 characters long'')
      \<and> initializeKeys_try None cfgAlg (Some keyStr) envAlg
        = Inl (Error ''ENCRYPTION_KEY must be at least 32 characters long'')
      \<and> (length (or_else envKey []) < 32 \<longrightarrow>
           encryptionKey (initializeKeys (Some keyStr) cfgAlg envKey envAlg)
             = Buffer_from (substring 0 32 (padEnd 32 CHR ''0'' (or_else envKey []))))
      \<and> (length (Buffer_from_hex (or_else envKey [])) = 32 \<longrightarrow>
           encryptionKey (initializeKeys (Some keyStr) cfgAlg envKey envAlg)
             = Buffer_from_hex (or_else envKey []))
      \<and> encryptionKey (initializeKeys None cfgAlg (Some keyStr) envAlg)
        = Buffer_from (substring 0 32 (padEnd 32 CHR ''0'' keyStr))
      \<and> (ascii keyStr \<longrightarrow>
           length (Buffer_from (substring 0 32 (padEnd 32 CHR ''0'' keyStr))) = 32))
   \<and> encryptionKey (initializeKeys None cfgAlg None envAlg)
       = Buffer_from (substring 0 32 (padEnd 32 CHR ''0'' []))"
proof -
  have long: "length (derive_key keyStr) = 32"
    if "32 \<le> length keyStr" "length (Buffer_from_hex keyStr) \<noteq> 32" "ascii (take 32 keyStr)"
    using that by (simp add: derive_key_long length_Buffer_from_ascii)
  have a: "32 \<le> length keyStr \<longrightarrow>
      ApiEncryptionHelper keyStr alg = Inr \<lparr>encryptionKey = derive_key keyStr, algorithm = alg\<rparr>
      \<and> encryptionKey (initializeKeys (Some keyStr) cfgAlg envKey envAlg) = derive_key keyStr
      \<and> encryptionKey (initializeKeys None cfgAlg (Some keyStr) envAlg) = derive_key keyStr
      \<and> (length (Buffer_from_hex keyStr) = 32 \<longrightarrow> derive_key keyStr = Buffer_from_hex keyStr)
      \<and> (length (Buffer_from_hex keyStr) \<noteq> 32 \<longrightarrow>
            derive_key keyStr = Buffer_from (substring 0 32 (padEnd 32 CHR ''0'' keyStr))
            \<and> derive_key keyStr = Buffer_from (take 32 keyStr)
            \<and> (ascii (take 32 keyStr) \<longrightarrow> length (derive_key keyStr) = 32))"
    using initializeKeys_config [of keyStr cfgAlg envKey envAlg]
      initializeKeys_env [of keyStr cfgAlg envAlg] derive_key_long [of keyStr] long
    by (auto simp: ApiEncryptionHelper_def derive_key_def)
  have b: "length keyStr < 32 \<longrightarrow>
      ApiEncryptionHelper keyStr alg
        = Inl (Error ''Encryption key must be at least 32 characters long'')
      \<and> initializeKeys_try (Some keyStr) cfgAlg envKey envAlg
        = Inl (Error ''ENCRYPTION_KEY must be at least 32 characters long'')
      \<and> initializeKeys_try None cfgAlg (Some keyStr) envAlg
        = Inl (Error ''ENCRYPTION_KEY must be at least 32 characters long'')
      \<and> (length (or_else envKey []) < 32 \<longrightarrow>
           encryptionKey (initializeKeys (Some keyStr) cfgAlg envKey envAlg)
             = Buffer_from (substring 0 32 (padEnd 32 CHR ''0'' (or_else envKey []))))
      \<and> (length (Buffer_from_hex (or_else envKey [])) = 32 \<longrightarrow>
           encryptionKey (initializeKeys (Some keyStr) cfgAlg envKey envAlg)
             = Buffer_from_hex (or_else envKey []))
      \<and> encryptionKey (initializeKeys None cfgAlg (Some keyStr) envAlg)
        = Buffer_from (substring 0 32 (padEnd 32 CHR ''0'' keyStr))
      \<and> (ascii keyStr \<longrightarrow>
           length (Buffer_from (substring 0 32 (padEnd 32 CHR ''0'' keyStr))) = 32)"
    using initializeKeys_env_short [of keyStr cfgAlg envAlg] padded_length [of keyStr]
      initializeKeys_fallback [of keyStr cfgAlg envKey envAlg]
      initializeKeys_try_env_short [of keyStr cfgAlg envAlg]
      length_Buffer_from_hex [of "or_else envKey []"]
    by (simp add: ApiEncryptionHelper_def initializeKeys_try_def getConfigWithFallback_def)
  have c: "encryptionKey (initializeKeys None cfgAlg None envAlg)
       = Buffer_from (substring 0 32 (padEnd 32 CHR ''0'' []))"
    by (simp add: initializeKeys_nothing substring_def padEnd_def)
  from a b c show ?thesis by blast
qed

lemma local_key_facts:
  "32 \<le> length local_key" "length (Buffer_from_hex local_key) \<noteq> 32"
  "ascii (take 32 local_key)" "take 32 local_key = local_key"
  by (simp_all add: local_key_def hex_val_def ascii_def)

lemma double_key_facts:
  "32 \<le> length (local_key @ local_key)"
  "length (Buffer_from_hex (local_key @ local_key)) = 32"
  "or_else (Some (local_key @ local_key)) [] = local_key @ local_key"
  "or_else (Some ''xyz'') [] = ''xyz''"
  "substring 0 32 (padEnd 32 CHR ''0'' ''xyz'') = ''xyz00000000000000000000000000000''"
  by (simp_all add: local_key_def hex_val_def or_else_def truthy_str_def substring_def
        padEnd_def eval_nat_numeral)

theorem key_derivation_witness:
  "ApiEncryptionHelper local_key ''aes-256-gcm''
     = Inr \<lparr>encryptionKey = Buffer_from local_key, algorithm = ''aes-256-gcm''\<rparr>
   \<and> encryptionKey (initializeKeys (Some local_key) None None None) = Buffer_from local_key
   \<and> length (Buffer_from local_key) = 32
   \<and> ApiEncryptionHelper (local_key @ local_key) ''aes-256-gcm''
       = Inr \<lparr>encryptionKey = Buffer_from_hex (local_key @ local_key),
              algorithm = ''aes-256-gcm''\<rparr>
   \<and> ApiEncryptionHelper ''abc'' ''aes-256-gcm''
       = Inl (Error ''Encryption key must be at least 32 characters long'')
   \<and> encryptionKey (initializeKeys (Some ''abc'') None (Some ''xyz'') None)
       = Buffer_from ''xyz00000000000000000000000000000''
   \<and> encryptionKey (initializeKeys (Some ''abc'') None (Some (local_key @ local_key)) None)
       = Buffer_from_hex (local_key @ local_key)
   \<and> encryptionKey (initializeKeys None None (Some ''xyz'') None)
       = Buffer_from ''xyz00000000000000000000000000000''"
proof -
  from key_derivation [of local_key "''aes-256-gcm''" None None None] local_key_facts(1-3)
  have "ApiEncryptionHelper local_key ''aes-256-gcm''
          = Inr \<lparr>encryptionKey = derive_key local_key, algorithm = ''aes-256-gcm''\<rparr>
        \<and> encryptionKey (initializeKeys (Some local_key) None None None) = derive_key local_key
        \<and> derive_key local_key = Buffer_from (take 32 local_key)
        \<and> length (derive_key local_key) = 32"
    by blast
  then have 1: "ApiEncryptionHelper local_key ''aes-256-gcm''
          = Inr \<lparr>encryptionKey = Buffer_from local_key, algorithm = ''aes-256-gcm''\<rparr>
        \<and> encryptionKey (initializeKeys (Some local_key) None None None) = Buffer_from local_key
        \<and> length (Buffer_from local_key) = 32"
    by (auto simp: local_key_facts(4))
  from key_derivation [of "local_key @ local_key" "''aes-256-gcm''" None None None]
    double_key_facts(1,2)
  have "ApiEncryptionHelper (local_key @ local_key) ''aes-256-gcm''
          = Inr \<lparr>encryptionKey = derive_key (local_key @ local_key),
                 algorithm = ''aes-256-gcm''\<rparr>
        \<and> derive_key (local_key @ local_key) = Buffer_from_hex (local_key @ local_key)"
    by blast
  then have 2: "ApiEncryptionHelper (local_key @ local_key) ''aes-256-gcm''
       = Inr \<lparr>encryptionKey = Buffer_from_hex (local_key @ local_key),
              algorithm = ''aes-256-gcm''\<rparr>"
    by simp
  have s: "length ''abc'' < 32" by simp
  with key_derivation [of "''abc''" "''aes-256-gcm''"]
  have 3: "ApiEncryptionHelper ''abc'' ''aes-256-gcm''
       = Inl (Error ''Encryption key must be at least 32 characters long'')"
    by blast
  from key_derivation [of "''abc''" "''aes-256-gcm''" None "Some ''xyz''" None] s
  have 4: "encryptionKey (initializeKeys (Some ''abc'') None (Some ''xyz'') None)
       = Buffer_from ''xyz00000000000000000000000000000''"
    by (simp add: double_key_facts(4,5))
  from key_derivation [of "''abc''" "''aes-256-gcm''" None "Some (local_key @ local_key)" None]
    s double_key_facts(2)
  have 5: "encryptionKey (initializeKeys (Some ''abc'') None (Some (local_key @ local_key)) None)
       = Buffer_from_hex (local_key @ local_key)"
    by (simp add: double_key_facts(3))
  have s': "length ''xyz'' < 32" by simp
  from key_derivation [of "''xyz''" "''aes-256-gcm''" None None None] s'
  have 6: "encryptionKey (initializeKeys None None (Some ''xyz'') None)
       = Buffer_from ''xyz00000000000000000000000000000''"
    by (simp add: double_key_facts(5))
  from 1 2 3 4 5 6 show ?thesis by blast
qed

text \<open>
  In the fallback of the service an environment value of 32 characters or more is decoded
  as hex without the check of the main path: the local key, 32 characters, gives a key of
  16 bytes there.
\<close>

lemma fallback_key_unchecked:
  "length (encryptionKey (initializeKeys (Some ''abc'') None (Some local_key) None)) = 16"
  by (simp add: initializeKeys_fallback or_else_def truthy_str_def)
     (simp add: local_key_def hex_val_def)

lemma service_short_key_falls_back:
  "encryptionKey (initializeKeys (Some ''abc'') None None None) = Buffer_from (replicate 32 CHR ''0'')"
  by (simp add: initializeKeys_def initializeKeys_try_def getConfigWithFallback_def or_else_def
        substring_def padEnd_def)

end
